theory Spec2Isabelle
  imports Complex_Main
begin

chapter \<open>stockInfo: storage, market-data client, routes and schema setup\<close>

text \<open>
  A model of the server side of the stockInfo application: the storage module over the
  SQLite tables, the client of the market-data provider, the authentication, stock,
  watchlist, portfolio and admin routes, and the schema initialization. Functions keep
  the names they have in the JavaScript sources. A function that reads or writes the
  database takes the store and returns it; a function that can throw returns
  \<open>Inl\<close> of the error.
\<close>

section \<open>JavaScript values, strings and errors\<close>

text \<open>
  A property of a request body or of an options object is either absent
  (\<open>undefined\<close>), \<open>null\<close>, or carries a value.
\<close>

datatype 'a field = Undefined | Null | Val 'a

text \<open>Truthiness of a string-valued property (\<open>!x\<close> is its negation).\<close>

fun truthy :: "string field \<Rightarrow> bool" where
  "truthy Undefined = False"
| "truthy Null = False"
| "truthy (Val s) = (s \<noteq> [])"

text \<open>The string a truthy property holds.\<close>

fun text_of :: "string field \<Rightarrow> string" where
  "text_of (Val s) = s"
| "text_of _ = []"

text \<open>\<open>x || null\<close> as it is bound to a nullable text column.\<close>

fun or_null :: "string field \<Rightarrow> string option" where
  "or_null (Val s) = (if s = [] then None else Some s)"
| "or_null _ = None"

fun startsWith :: "string \<Rightarrow> string \<Rightarrow> bool" where
  "startsWith s [] = True"
| "startsWith [] (c # t) = False"
| "startsWith (a # s) (c # t) = (a = c \<and> startsWith s t)"

text \<open>\<open>str_includes s t\<close> is \<open>s.includes(t)\<close>.\<close>

fun str_includes :: "string \<Rightarrow> string \<Rightarrow> bool" where
  "str_includes [] t = (t = [])"
| "str_includes (a # s) t = (startsWith (a # s) t \<or> str_includes s t)"

text \<open>
  A thrown \<open>Error\<close>: its message and its \<open>status\<close> property, which no error
  constructed in this code base carries.
\<close>

datatype exn = Error (message: string) (status: "nat option")

text \<open>What the market-data provider returns, as far as the routes look at it.\<close>

record quote =
  q_price :: rat
  q_name :: string
  q_changesPercentage :: rat

datatype profile = Profile string
datatype history = History "(nat \<times> rat) list"
datatype hit = Hit string string

record watchlist_entry =
  e_id :: "int option"
  e_userId :: int
  e_symbol :: string
  e_createdAt :: nat

section \<open>The relational store\<close>

text \<open>
  Tables as created by \<open>initializeDatabase\<close>. Every table has an
  \<open>INTEGER PRIMARY KEY AUTOINCREMENT\<close> column; \<open>seq\<close> is the largest row id the
  table has handed out.
\<close>

record 'r table =
  rows :: "'r list"
  seq :: int

record user_row =
  u_id :: int
  u_username :: string
  u_password :: "string option"
  u_email :: string
  u_full_name :: string
  u_role :: string
  u_avatar :: "string option"
  u_address :: "string option"
  u_dark_mode :: nat
  u_created_at :: nat
  u_last_login :: "nat option"
  u_google_id :: "string option"

record watchlist_row =
  w_id :: int
  w_user_id :: int
  w_symbol :: string
  w_created_at :: nat

record portfolio_row =
  p_id :: int
  p_user_id :: int
  p_name :: string
  p_description :: "string option"
  p_created_at :: nat

record position_row =
  ps_id :: int
  ps_portfolio_id :: int
  ps_symbol :: string
  ps_shares :: rat
  ps_purchase_price :: rat
  ps_purchase_date :: "nat option"
  ps_notes :: "string option"

record restricted_row =
  r_id :: int
  r_symbol :: string
  r_reason :: "string option"
  r_added_at :: nat
  r_added_by :: "int option"

record featured_row =
  f_id :: int
  f_symbol :: string
  f_title :: string
  f_description :: "string option"
  f_start_date :: nat
  f_end_date :: "nat option"
  f_added_by :: "int option"

record log_row =
  l_id :: int
  l_user_id :: "int option"
  l_endpoint :: string
  l_request_time :: nat
  l_response_time :: nat
  l_success :: nat
  l_error_message :: "string option"

record db =
  users :: "user_row table"
  user_watchlist :: "watchlist_row table"
  portfolio :: "portfolio_row table"
  portfolio_positions :: "position_row table"
  restricted_stocks :: "restricted_row table"
  featured_stocks :: "featured_row table"
  api_logs :: "log_row table"

text \<open>
  The row id an \<open>AUTOINCREMENT\<close> table gives to the next inserted row: one more than
  the largest id ever used.
\<close>

definition next_id :: "('r \<Rightarrow> int) \<Rightarrow> 'r table \<Rightarrow> int" where
  "next_id idf t = fold max (map idf (rows t)) (seq t) + 1"

definition append_row :: "('r \<Rightarrow> int) \<Rightarrow> (int \<Rightarrow> 'r) \<Rightarrow> 'r table \<Rightarrow> 'r table" where
  "append_row idf mk t = \<lparr> rows = rows t @ [mk (next_id idf t)], seq = next_id idf t \<rparr>"

definition user_exists :: "int \<Rightarrow> db \<Rightarrow> bool" where
  "user_exists i d = list_ex (\<lambda>u. u_id u = i) (rows (users d))"

text \<open>A nullable foreign key into \<open>users(id)\<close> holds when it is NULL or names a user.\<close>

definition fk_user :: "int option \<Rightarrow> db \<Rightarrow> bool" where
  "fk_user k d = (case k of None \<Rightarrow> True | Some i \<Rightarrow> user_exists i d)"

definition unique_failed :: "string \<Rightarrow> exn" where
  "unique_failed cols = Error (''SQLITE_CONSTRAINT: UNIQUE constraint failed: '' @ cols) None"

definition not_null_failed :: "string \<Rightarrow> exn" where
  "not_null_failed col = Error (''SQLITE_CONSTRAINT: NOT NULL constraint failed: '' @ col) None"

definition foreign_key_failed :: exn where
  "foreign_key_failed = Error ''SQLITE_CONSTRAINT: FOREIGN KEY constraint failed'' None"

text \<open>
  The clock, the password hash, the market-data provider and the string functions of the
  JavaScript runtime are outside the program; a \<open>world\<close> fixes what they answer during
  one request. \<open>toUpperCase\<close> is \<open>String.prototype.toUpperCase\<close>: the program only
  calls it, and nothing below depends on which letters it moves or on whether it keeps
  the length of a string.
\<close>

datatype 'a upstream =
    Responded 'a
  | Failed (resp_status: "nat option") (resp_error: "string option") (err_message: string)

record world =
  clock :: nat
  latency :: nat
  bcrypt_hash :: "string \<Rightarrow> string"
  bcrypt_compare :: "string \<Rightarrow> string \<Rightarrow> bool"
  session_ok :: bool
  fmp_quote :: "string \<Rightarrow> quote list upstream"
  fmp_profile :: "string \<Rightarrow> profile list upstream"
  fmp_historical :: "string \<Rightarrow> history option upstream"
  fmp_search :: "string \<Rightarrow> hit list upstream"
  toUpperCase :: "string \<Rightarrow> string"

text \<open>\<open>try { body } catch (e) { handler }\<close> over the store.\<close>

definition try_catch ::
  "(db \<Rightarrow> (exn + 'a) \<times> db) \<Rightarrow> (exn \<Rightarrow> db \<Rightarrow> (exn + 'a) \<times> db) \<Rightarrow> db \<Rightarrow> (exn + 'a) \<times> db" where
  "try_catch body handler d =
     (case body d of (Inl e, d') \<Rightarrow> handler e d' | (Inr v, d') \<Rightarrow> (Inr v, d'))"

text \<open>
  An HTTP answer: status code and JSON body. \<open>Failure m\<close> is
  \<open>{success: false, message: m}\<close>, \<open>ErrorOnly e\<close> is \<open>{error: e}\<close>,
  \<open>ErrorMessage e m\<close> is \<open>{error: e, message: m}\<close> and \<open>Success m\<close> is
  \<open>{success: true, message: m}\<close>.
\<close>

datatype body =
    Failure string
  | ErrorOnly string
  | ErrorMessage string string
  | Success string
  | QuoteJson quote
  | ProfileJson profile
  | HistoryJson history
  | HitsJson "hit list"
  | ItemJson watchlist_entry quote
  | UserJson "user_row option"
  | PortfolioJson portfolio_row "position_row list"
  | PortfolioRowJson "portfolio_row option"
  | PositionsJson "position_row list"
  | PositionJson "position_row option"

datatype reply = Reply (http_status: nat) (body: body)


section \<open>Storage module: API log\<close>

fun id_or_null :: "int option \<Rightarrow> int option" where
  "id_or_null None = None"
| "id_or_null (Some i) = (if i = 0 then None else Some i)"

fun text_or_null :: "string option \<Rightarrow> string option" where
  "text_or_null None = None"
| "text_or_null (Some m) = (if m = [] then None else Some m)"

definition storage_logApiRequest ::
  "world \<Rightarrow> int option \<Rightarrow> string \<Rightarrow> nat \<Rightarrow> bool \<Rightarrow> string option \<Rightarrow> db \<Rightarrow> (exn + unit) \<times> db" where
  "storage_logApiRequest w userId endpoint responseTime success errorMessage d =
     (if \<not> fk_user (id_or_null userId) d then (Inl foreign_key_failed, d)
      else (Inr (),
            d\<lparr>api_logs := append_row l_id
                 (\<lambda>i. \<lparr> l_id = i, l_user_id = id_or_null userId, l_endpoint = endpoint,
                        l_request_time = clock w, l_response_time = responseTime,
                        l_success = (if success then 1 else 0),
                        l_error_message = text_or_null errorMessage \<rparr>)
                 (api_logs d)\<rparr>))"

section \<open>Market-data client\<close>

text \<open>A failure to record the call never aborts the call itself.\<close>

definition logApiRequest ::
  "world \<Rightarrow> int option \<Rightarrow> string \<Rightarrow> bool \<Rightarrow> nat \<Rightarrow> string option \<Rightarrow> db \<Rightarrow> db" where
  "logApiRequest w userId endpoint success responseTime errorMessage d =
     snd (storage_logApiRequest w userId endpoint responseTime success errorMessage d)"

text \<open>\<open>error.response?.data?.error || error.message\<close>\<close>

definition errorMessage_of :: "string option \<Rightarrow> string \<Rightarrow> string" where
  "errorMessage_of resp_err msg =
     (case resp_err of Some e \<Rightarrow> (if e \<noteq> [] then e else msg) | None \<Rightarrow> msg)"

definition rate_limit_error :: exn where
  "rate_limit_error = Error ''API rate limit reached. Please try again later.'' None"

definition fetchStockQuote ::
  "world \<Rightarrow> string \<Rightarrow> int option \<Rightarrow> db \<Rightarrow> (exn + quote option) \<times> db" where
  "fetchStockQuote w symbol userId d =
     (if symbol = [] then (Inr None, d)
      else case fmp_quote w symbol of
        Responded data \<Rightarrow>
          (Inr (case data of [] \<Rightarrow> None | q # _ \<Rightarrow> Some q),
           logApiRequest w userId (''/api/stocks/quote/'' @ symbol) True (latency w) None d)
      | Failed st resp_err msg \<Rightarrow>
          (let errorMessage = errorMessage_of resp_err msg;
               d' = logApiRequest w userId (''/api/stocks/quote/'' @ symbol) False (latency w)
                      (Some errorMessage) d
           in if st = Some 429 \<or> str_includes errorMessage ''Limit Reach''
              then (Inl rate_limit_error, d')
              else (Inl (Error (''Error fetching stock quote: '' @ errorMessage) None), d')))"

definition fetchCompanyProfile ::
  "world \<Rightarrow> string \<Rightarrow> int option \<Rightarrow> db \<Rightarrow> (exn + profile option) \<times> db" where
  "fetchCompanyProfile w symbol userId d =
     (if symbol = [] then (Inr None, d)
      else case fmp_profile w symbol of
        Responded data \<Rightarrow>
          (Inr (case data of [] \<Rightarrow> None | q # _ \<Rightarrow> Some q),
           logApiRequest w userId (''/api/stocks/profile/'' @ symbol) True (latency w) None d)
      | Failed st resp_err msg \<Rightarrow>
          (let errorMessage = errorMessage_of resp_err msg;
               d' = logApiRequest w userId (''/api/stocks/profile/'' @ symbol) False (latency w)
                      (Some errorMessage) d
           in if st = Some 429 \<or> str_includes errorMessage ''Limit Reach''
              then (Inl rate_limit_error, d')
              else (Inl (Error (''Error fetching company profile: '' @ errorMessage) None), d')))"

definition fetchHistoricalData ::
  "world \<Rightarrow> string \<Rightarrow> int option \<Rightarrow> db \<Rightarrow> (exn + history option) \<times> db" where
  "fetchHistoricalData w symbol userId d =
     (if symbol = [] then (Inr None, d)
      else case fmp_historical w symbol of
        Responded data \<Rightarrow>
          (Inr data,
           logApiRequest w userId (''/api/stocks/historical/'' @ symbol) True (latency w) None d)
      | Failed st resp_err msg \<Rightarrow>
          (let errorMessage = errorMessage_of resp_err msg;
               d' = logApiRequest w userId (''/api/stocks/historical/'' @ symbol) False (latency w)
                      (Some errorMessage) d
           in if st = Some 429 \<or> str_includes errorMessage ''Limit Reach''
              then (Inl rate_limit_error, d')
              else (Inl (Error (''Error fetching historical data: '' @ errorMessage) None), d')))"

definition searchStocks ::
  "world \<Rightarrow> string \<Rightarrow> int option \<Rightarrow> db \<Rightarrow> (exn + hit list) \<times> db" where
  "searchStocks w query userId d =
     (if query = [] \<or> length query < 2 then (Inr [], d)
      else case fmp_search w query of
        Responded data \<Rightarrow>
          (Inr data,
           logApiRequest w userId (''/api/stocks/search?query='' @ query) True (latency w) None d)
      | Failed st resp_err msg \<Rightarrow>
          (let errorMessage = errorMessage_of resp_err msg;
               d' = logApiRequest w userId (''/api/stocks/search?query='' @ query) False (latency w)
                      (Some errorMessage) d
           in if st = Some 429 \<or> str_includes errorMessage ''Limit Reach''
              then (Inl rate_limit_error, d')
              else (Inl (Error (''Error searching stocks: '' @ errorMessage) None), d')))"

section \<open>Stock routes and the API error handler\<close>

text \<open>
  A route handler either answers (\<open>Inr\<close>) or passes an error on with \<open>next(error)\<close>
  (\<open>Inl\<close>). Under \<open>/api\<close> the error then reaches the API error handler, which takes
  the status from \<open>err.status || err.statusCode || 500\<close>.
\<close>

definition api_error_handler :: "exn \<Rightarrow> reply" where
  "api_error_handler err =
     Reply (case status err of Some s \<Rightarrow> (if s \<noteq> 0 then s else 500) | None \<Rightarrow> 500)
           (Failure (if message err \<noteq> [] then message err else ''Internal Server Error''))"

definition api_respond :: "(exn + reply) \<times> db \<Rightarrow> reply \<times> db" where
  "api_respond r = (case r of (Inl e, d) \<Rightarrow> (api_error_handler e, d) | (Inr a, d) \<Rightarrow> (a, d))"

definition get_quote :: "world \<Rightarrow> int \<Rightarrow> string \<Rightarrow> db \<Rightarrow> (exn + reply) \<times> db" where
  "get_quote w userId param d =
     (let symbol = toUpperCase w param in
      case fetchStockQuote w symbol (Some userId) d of
        (Inl e, d') \<Rightarrow> (Inl e, d')
      | (Inr None, d') \<Rightarrow>
          (Inr (Reply 404 (Failure (''No quote data found for symbol: '' @ symbol))), d')
      | (Inr (Some quote), d') \<Rightarrow> (Inr (Reply 200 (QuoteJson quote)), d'))"

definition get_profile :: "world \<Rightarrow> int \<Rightarrow> string \<Rightarrow> db \<Rightarrow> (exn + reply) \<times> db" where
  "get_profile w userId param d =
     (let symbol = toUpperCase w param in
      case fetchCompanyProfile w symbol (Some userId) d of
        (Inl e, d') \<Rightarrow> (Inl e, d')
      | (Inr None, d') \<Rightarrow>
          (Inr (Reply 404 (Failure (''No company profile found for symbol: '' @ symbol))), d')
      | (Inr (Some profile), d') \<Rightarrow> (Inr (Reply 200 (ProfileJson profile)), d'))"

definition get_historical :: "world \<Rightarrow> int \<Rightarrow> string \<Rightarrow> db \<Rightarrow> (exn + reply) \<times> db" where
  "get_historical w userId param d =
     (let symbol = toUpperCase w param in
      case fetchHistoricalData w symbol (Some userId) d of
        (Inl e, d') \<Rightarrow> (Inl e, d')
      | (Inr None, d') \<Rightarrow>
          (Inr (Reply 404 (Failure (''No historical data found for symbol: '' @ symbol))), d')
      | (Inr (Some historicalData), d') \<Rightarrow> (Inr (Reply 200 (HistoryJson historicalData)), d'))"

definition get_search :: "world \<Rightarrow> int \<Rightarrow> string field \<Rightarrow> db \<Rightarrow> (exn + reply) \<times> db" where
  "get_search w userId query d =
     (case query of
        Val q \<Rightarrow>
          (if q = [] \<or> length q < 2
           then (Inr (Reply 400 (Failure ''Search query must be at least 2 characters long'')), d)
           else case searchStocks w q (Some userId) d of
                  (Inl e, d') \<Rightarrow> (Inl e, d')
                | (Inr results, d') \<Rightarrow> (Inr (Reply 200 (HitsJson results)), d'))
      | _ \<Rightarrow> (Inr (Reply 400 (Failure ''Search query must be at least 2 characters long'')), d))"

text \<open>The four market-data read endpoints, as the caller sees them.\<close>

datatype stock_request = Quote string | CompanyProfile string | Historical string | Search string

fun stock_endpoint :: "world \<Rightarrow> int \<Rightarrow> stock_request \<Rightarrow> db \<Rightarrow> reply \<times> db" where
  "stock_endpoint w userId (Quote s) d = api_respond (get_quote w userId s d)"
| "stock_endpoint w userId (CompanyProfile s) d = api_respond (get_profile w userId s d)"
| "stock_endpoint w userId (Historical s) d = api_respond (get_historical w userId s d)"
| "stock_endpoint w userId (Search q) d = api_respond (get_search w userId (Val q) d)"

text \<open>
  The provider's rejection of the call an endpoint makes, if it makes one and the
  provider rejects it: response status, \<open>response.data.error\<close> and the error's message.
\<close>

fun provider_answer :: "world \<Rightarrow> stock_request \<Rightarrow> (nat option \<times> string option \<times> string) option" where
  "provider_answer w (Quote s) =
     (if toUpperCase w s = [] then None
      else case fmp_quote w (toUpperCase w s) of Failed st e m \<Rightarrow> Some (st, e, m) | _ \<Rightarrow> None)"
| "provider_answer w (CompanyProfile s) =
     (if toUpperCase w s = [] then None
      else case fmp_profile w (toUpperCase w s) of Failed st e m \<Rightarrow> Some (st, e, m) | _ \<Rightarrow> None)"
| "provider_answer w (Historical s) =
     (if toUpperCase w s = [] then None
      else case fmp_historical w (toUpperCase w s) of Failed st e m \<Rightarrow> Some (st, e, m) | _ \<Rightarrow> None)"
| "provider_answer w (Search q) =
     (if length q < 2 then None
      else case fmp_search w q of Failed st e m \<Rightarrow> Some (st, e, m) | _ \<Rightarrow> None)"


section \<open>Storage module: watchlist and restricted stocks\<close>

definition getRestrictedStocks :: "db \<Rightarrow> restricted_row list" where
  "getRestrictedStocks d = rows (restricted_stocks d)"

definition getUserWatchlist :: "int \<Rightarrow> db \<Rightarrow> watchlist_row list" where
  "getUserWatchlist userId d = filter (\<lambda>r. w_user_id r = userId) (rows (user_watchlist d))"

text \<open>
  \<open>INSERT INTO user_watchlist (user_id, symbol) VALUES (?, ?)\<close> under the table's
  \<open>UNIQUE(user_id, symbol)\<close> and its foreign key into \<open>users\<close>; the result is the
  number of changed rows, as \<open>dbRun\<close> resolves it.
\<close>

definition insert_user_watchlist :: "world \<Rightarrow> int \<Rightarrow> string \<Rightarrow> db \<Rightarrow> (exn + nat) \<times> db" where
  "insert_user_watchlist w userId symbol d =
     (if list_ex (\<lambda>r. w_user_id r = userId \<and> w_symbol r = symbol) (rows (user_watchlist d))
      then (Inl (unique_failed ''user_watchlist.user_id, user_watchlist.symbol''), d)
      else if \<not> user_exists userId d then (Inl foreign_key_failed, d)
      else (Inr 1,
            d\<lparr>user_watchlist := append_row w_id
                 (\<lambda>i. \<lparr> w_id = i, w_user_id = userId, w_symbol = symbol, w_created_at = clock w \<rparr>)
                 (user_watchlist d)\<rparr>))"

text \<open>
  The returned item takes its id from \<open>result.lastID\<close>; \<open>result\<close> is a number, so the
  id is undefined.
\<close>

definition addToWatchlist ::
  "world \<Rightarrow> int \<Rightarrow> string \<Rightarrow> db \<Rightarrow> (exn + watchlist_entry) \<times> db" where
  "addToWatchlist w userId symbol d =
     (case insert_user_watchlist w userId (toUpperCase w symbol) d of
        (Inr result, d') \<Rightarrow>
          (Inr \<lparr> e_id = None, e_userId = userId, e_symbol = toUpperCase w symbol,
                 e_createdAt = clock w \<rparr>, d')
      | (Inl error, d') \<Rightarrow>
          (if str_includes (message error) ''UNIQUE constraint failed''
           then (Inl (Error (''Stock '' @ symbol @ '' is already in your watchlist'') None), d')
           else (Inl error, d')))"

definition removeFromWatchlist :: "world \<Rightarrow> int \<Rightarrow> string \<Rightarrow> db \<Rightarrow> bool \<times> db" where
  "removeFromWatchlist w userId symbol d =
     (True,
      d\<lparr>user_watchlist := (user_watchlist d)
           \<lparr>rows := filter (\<lambda>r. \<not> (w_user_id r = userId \<and> w_symbol r = toUpperCase w symbol))
                      (rows (user_watchlist d))\<rparr>\<rparr>)"

definition isInWatchlist :: "world \<Rightarrow> int \<Rightarrow> string \<Rightarrow> db \<Rightarrow> bool" where
  "isInWatchlist w userId symbol d =
     list_ex (\<lambda>r. w_user_id r = userId \<and> w_symbol r = toUpperCase w symbol)
       (rows (user_watchlist d))"

section \<open>Watchlist route: POST /api/watchlist/items\<close>

text \<open>The body of the inner \<open>try\<close>: resolve the quote, consult the restricted list, insert.\<close>

definition post_items_try :: "world \<Rightarrow> int \<Rightarrow> string \<Rightarrow> db \<Rightarrow> (exn + reply) \<times> db" where
  "post_items_try w userId symbol d =
     (case fetchStockQuote w symbol (Some userId) d of
        (Inl e, d1) \<Rightarrow> (Inl e, d1)
      | (Inr None, d1) \<Rightarrow> (Inr (Reply 404 (Failure (''Invalid stock symbol: '' @ symbol))), d1)
      | (Inr (Some stockData), d1) \<Rightarrow>
          (let restrictedStocks = getRestrictedStocks d1;
               isRestricted = list_ex (\<lambda>stock. toUpperCase w (r_symbol stock) = toUpperCase w symbol)
                                restrictedStocks
           in if isRestricted
              then (Inr (Reply 403 (Failure (''Stock '' @ symbol @
                            '' is restricted and cannot be added to watchlists.''))), d1)
              else case addToWatchlist w userId symbol d1 of
                     (Inl e, d2) \<Rightarrow> (Inl e, d2)
                   | (Inr item, d2) \<Rightarrow> (Inr (Reply 201 (ItemJson item stockData)), d2)))"

text \<open>The inner \<open>catch\<close>: it answers every error itself.\<close>

definition post_items_catch :: "exn \<Rightarrow> db \<Rightarrow> (exn + reply) \<times> db" where
  "post_items_catch error d =
     (if str_includes (message error) ''API rate limit''
      then (Inr (Reply 429 (Failure (message error))), d)
      else (Inr (Reply 500 (Failure (''Error adding stock to watchlist: '' @ message error))), d))"

text \<open>The outer \<open>catch\<close>: duplicates become 400, anything else goes to \<open>next(error)\<close>.\<close>

definition post_items_outer_catch :: "exn \<Rightarrow> db \<Rightarrow> (exn + reply) \<times> db" where
  "post_items_outer_catch error d =
     (if str_includes (message error) ''already in your watchlist''
      then (Inr (Reply 400 (Failure (message error))), d)
      else (Inl error, d))"

definition post_items :: "world \<Rightarrow> int \<Rightarrow> string field \<Rightarrow> db \<Rightarrow> (exn + reply) \<times> db" where
  "post_items w userId symbol d =
     try_catch
       (\<lambda>d. case symbol of
              Val s \<Rightarrow>
                (if s = [] then (Inr (Reply 400 (Failure ''Stock symbol is required'')), d)
                 else try_catch (post_items_try w userId s) post_items_catch d)
            | _ \<Rightarrow> (Inr (Reply 400 (Failure ''Stock symbol is required'')), d))
       post_items_outer_catch d"

definition watchlist_post :: "world \<Rightarrow> int \<Rightarrow> string field \<Rightarrow> db \<Rightarrow> reply \<times> db" where
  "watchlist_post w userId symbol d = api_respond (post_items w userId symbol d)"

section \<open>Storage module: users\<close>

text \<open>
  The options object of \<open>createUser\<close> and \<open>updateUser\<close>. \<open>d_role\<close> and \<open>d_last_login\<close>
  are keys that callers pass and \<open>updateUser\<close> never reads.
\<close>

record userData =
  d_username :: "string field"
  d_password :: "string field"
  d_email :: "string field"
  d_full_name :: "string field"
  d_role :: "string field"
  d_avatar :: "string field"
  d_address :: "string field"
  d_dark_mode :: "bool field"
  d_google_id :: "string field"
  d_last_login :: "nat field"

definition no_fields :: userData where
  "no_fields = \<lparr> d_username = Undefined, d_password = Undefined, d_email = Undefined,
                  d_full_name = Undefined, d_role = Undefined, d_avatar = Undefined,
                  d_address = Undefined, d_dark_mode = Undefined, d_google_id = Undefined,
                  d_last_login = Undefined \<rparr>"

text \<open>The value a property binds to a statement parameter: absent and null both bind NULL.\<close>

fun to_sql :: "'a field \<Rightarrow> 'a option" where
  "to_sql (Val v) = Some v"
| "to_sql _ = None"

text \<open>\<open>x ? 1 : 0\<close>\<close>

fun flag :: "bool field \<Rightarrow> nat" where
  "flag (Val True) = 1"
| "flag _ = 0"

definition getUser :: "int \<Rightarrow> db \<Rightarrow> user_row option" where
  "getUser i d = find (\<lambda>u. u_id u = i) (rows (users d))"

definition getUserByUsername :: "string \<Rightarrow> db \<Rightarrow> user_row option" where
  "getUserByUsername username d = find (\<lambda>u. u_username u = username) (rows (users d))"

definition getUserByEmail :: "string \<Rightarrow> db \<Rightarrow> user_row option" where
  "getUserByEmail email d = find (\<lambda>u. u_email u = email) (rows (users d))"

text \<open>
  \<open>INSERT INTO users (username, password, email, full_name, role, avatar, address,
  dark_mode)\<close> under the table's constraints: \<open>username\<close>, \<open>email\<close> and \<open>full_name\<close>
  are \<open>NOT NULL\<close>, \<open>username\<close> and \<open>email\<close> are \<open>UNIQUE\<close>. SQLite probes the
  unique indexes of a table from the last declared to the first, so a row that collides
  on both columns is reported for \<open>users.email\<close>. The result is the new row id, as
  \<open>dbModule.insert\<close> resolves it.
\<close>

definition insert_users ::
  "world \<Rightarrow> string option \<Rightarrow> string option \<Rightarrow> string option \<Rightarrow> string option \<Rightarrow> string \<Rightarrow>
   string option \<Rightarrow> string option \<Rightarrow> nat \<Rightarrow> db \<Rightarrow> (exn + int) \<times> db" where
  "insert_users w username passwordHash email full_name role avatar address dark_mode d =
     (case (username, email, full_name) of
        (Some un, Some em, Some fn) \<Rightarrow>
          (if list_ex (\<lambda>u. u_email u = em) (rows (users d))
           then (Inl (unique_failed ''users.email''), d)
           else if list_ex (\<lambda>u. u_username u = un) (rows (users d))
           then (Inl (unique_failed ''users.username''), d)
           else (Inr (next_id u_id (users d)),
                 d\<lparr>users := append_row u_id
                      (\<lambda>i. \<lparr> u_id = i, u_username = un, u_password = passwordHash, u_email = em,
                             u_full_name = fn, u_role = role, u_avatar = avatar,
                             u_address = address, u_dark_mode = dark_mode,
                             u_created_at = clock w, u_last_login = None,
                             u_google_id = None \<rparr>)
                      (users d)\<rparr>))
      | (None, _, _) \<Rightarrow> (Inl (not_null_failed ''users.username''), d)
      | (_, None, _) \<Rightarrow> (Inl (not_null_failed ''users.email''), d)
      | (_, _, None) \<Rightarrow> (Inl (not_null_failed ''users.full_name''), d))"

definition createUser :: "world \<Rightarrow> userData \<Rightarrow> db \<Rightarrow> (exn + user_row option) \<times> db" where
  "createUser w userData d =
     (let passwordHash = (if truthy (d_password userData)
                          then Some (bcrypt_hash w (text_of (d_password userData))) else None)
      in case insert_users w (to_sql (d_username userData)) passwordHash
                (to_sql (d_email userData)) (to_sql (d_full_name userData))
                (case or_null (d_role userData) of Some r \<Rightarrow> r | None \<Rightarrow> ''user'')
                (or_null (d_avatar userData)) (or_null (d_address userData))
                (flag (d_dark_mode userData)) d of
           (Inl e, d') \<Rightarrow> (Inl e, d')
         | (Inr lastID, d') \<Rightarrow> (Inr (getUser lastID d'), d'))"

text \<open>
  One entry of the dynamically built \<open>SET\<close> clause, with the value bound to it.
\<close>

datatype assignment =
    SetUsername "string option"
  | SetPassword "string option"
  | SetEmail "string option"
  | SetFullName "string option"
  | SetAvatar "string option"
  | SetAddress "string option"
  | SetDarkMode nat
  | SetGoogleId "string option"

text \<open>
  The \<open>updateFields\<close>/\<open>updateValues\<close> pair that \<open>updateUser\<close> collects, in the order of
  its \<open>if\<close> statements. A key takes part when it is not \<open>undefined\<close>; the password
  when it is truthy, and then as its hash.
\<close>

definition updateFields :: "world \<Rightarrow> userData \<Rightarrow> assignment list" where
  "updateFields w userData =
     (if d_username userData \<noteq> Undefined then [SetUsername (to_sql (d_username userData))] else []) @
     (if truthy (d_password userData)
      then [SetPassword (Some (bcrypt_hash w (text_of (d_password userData))))] else []) @
     (if d_email userData \<noteq> Undefined then [SetEmail (to_sql (d_email userData))] else []) @
     (if d_full_name userData \<noteq> Undefined then [SetFullName (to_sql (d_full_name userData))] else []) @
     (if d_avatar userData \<noteq> Undefined then [SetAvatar (to_sql (d_avatar userData))] else []) @
     (if d_address userData \<noteq> Undefined then [SetAddress (to_sql (d_address userData))] else []) @
     (if d_dark_mode userData \<noteq> Undefined then [SetDarkMode (flag (d_dark_mode userData))] else []) @
     (if d_google_id userData \<noteq> Undefined then [SetGoogleId (to_sql (d_google_id userData))] else [])"

text \<open>A \<open>NOT NULL\<close> column assigned NULL.\<close>

fun null_violation :: "assignment \<Rightarrow> string option" where
  "null_violation (SetUsername None) = Some ''users.username''"
| "null_violation (SetEmail None) = Some ''users.email''"
| "null_violation (SetFullName None) = Some ''users.full_name''"
| "null_violation a = None"

fun assign :: "assignment \<Rightarrow> user_row \<Rightarrow> user_row" where
  "assign (SetUsername (Some v)) u = u\<lparr>u_username := v\<rparr>"
| "assign (SetUsername None) u = u"
| "assign (SetPassword v) u = u\<lparr>u_password := v\<rparr>"
| "assign (SetEmail (Some v)) u = u\<lparr>u_email := v\<rparr>"
| "assign (SetEmail None) u = u"
| "assign (SetFullName (Some v)) u = u\<lparr>u_full_name := v\<rparr>"
| "assign (SetFullName None) u = u"
| "assign (SetAvatar v) u = u\<lparr>u_avatar := v\<rparr>"
| "assign (SetAddress v) u = u\<lparr>u_address := v\<rparr>"
| "assign (SetDarkMode v) u = u\<lparr>u_dark_mode := v\<rparr>"
| "assign (SetGoogleId v) u = u\<lparr>u_google_id := v\<rparr>"

definition assign_all :: "assignment list \<Rightarrow> user_row \<Rightarrow> user_row" where
  "assign_all as u = fold assign as u"

text \<open>
  A \<open>UNIQUE\<close> column of the updated row that collides with another user's row
  (NULLs never collide), probed in the order \<open>google_id\<close>, \<open>email\<close>, \<open>username\<close>.
\<close>

definition unique_violation :: "int \<Rightarrow> user_row \<Rightarrow> user_row list \<Rightarrow> string option" where
  "unique_violation i u' rs =
     (let others = filter (\<lambda>r. u_id r \<noteq> i) rs in
      if u_google_id u' \<noteq> None \<and> list_ex (\<lambda>r. u_google_id r = u_google_id u') others
      then Some ''users.google_id''
      else if list_ex (\<lambda>r. u_email r = u_email u') others then Some ''users.email''
      else if list_ex (\<lambda>r. u_username r = u_username u') others then Some ''users.username''
      else None)"

text \<open>
  \<open>UPDATE users SET ... WHERE id = ?\<close>: a rejected statement changes nothing; the
  result is the number of changed rows, as \<open>dbRun\<close> resolves it.
\<close>

definition update_users :: "assignment list \<Rightarrow> int \<Rightarrow> db \<Rightarrow> (exn + nat) \<times> db" where
  "update_users as i d =
     (case find (\<lambda>u. u_id u = i) (rows (users d)) of
        None \<Rightarrow> (Inr 0, d)
      | Some u \<Rightarrow>
          (case List.map_filter null_violation as of
             col # _ \<Rightarrow> (Inl (not_null_failed col), d)
           | [] \<Rightarrow>
              (case unique_violation i (assign_all as u) (rows (users d)) of
                 Some col \<Rightarrow> (Inl (unique_failed col), d)
               | None \<Rightarrow>
                   (Inr (length (filter (\<lambda>r. u_id r = i) (rows (users d)))),
                    d\<lparr>users := (users d)
                         \<lparr>rows := map (\<lambda>r. if u_id r = i then assign_all as r else r)
                                    (rows (users d))\<rparr>\<rparr>))))"

definition updateUser :: "world \<Rightarrow> int \<Rightarrow> userData \<Rightarrow> db \<Rightarrow> (exn + user_row option) \<times> db" where
  "updateUser w i userData d =
     (if updateFields w userData = [] then (Inr (getUser i d), d)
      else case update_users (updateFields w userData) i d of
             (Inl e, d') \<Rightarrow> (Inl e, d')
           | (Inr changes, d') \<Rightarrow> (Inr (getUser i d'), d'))"


text \<open>\<open>UPDATE users SET last_login = CURRENT_TIMESTAMP WHERE id = ?\<close>\<close>

definition updateLastLogin :: "world \<Rightarrow> int \<Rightarrow> db \<Rightarrow> bool \<times> db" where
  "updateLastLogin w i d =
     (True,
      d\<lparr>users := (users d)
           \<lparr>rows := map (\<lambda>r. if u_id r = i then r\<lparr>u_last_login := Some (clock w)\<rparr> else r)
                      (rows (users d))\<rparr>\<rparr>)"

section \<open>Authentication\<close>

definition without_password :: "user_row \<Rightarrow> user_row" where
  "without_password u = u\<lparr>u_password := None\<rparr>"

text \<open>
  The verify callback of the local strategy: \<open>Inl\<close> is \<open>done(null, false, info)\<close> with
  the info message, \<open>Inr\<close> is \<open>done(null, user)\<close>.
\<close>

definition local_strategy :: "world \<Rightarrow> string \<Rightarrow> string \<Rightarrow> db \<Rightarrow> (string + user_row) \<times> db" where
  "local_strategy w username password d =
     (case getUserByUsername username d of
        None \<Rightarrow> (Inl ''Incorrect username'', d)
      | Some user \<Rightarrow>
          (let isMatch = (case u_password user of
                            Some h \<Rightarrow> (if h \<noteq> [] then bcrypt_compare w password h else False)
                          | None \<Rightarrow> False)
           in if \<not> isMatch then (Inl ''Incorrect password'', d)
              else (Inr (without_password user), snd (updateLastLogin w (u_id user) d))))"

text \<open>
  \<open>passport.authenticate('local', callback)\<close>: the strategy reads \<open>username\<close> and
  \<open>password\<close> from the request and, when either is missing or empty, fails with the info
  message \<open>Missing credentials\<close> without running the verify callback.
\<close>

definition authenticate_local ::
  "world \<Rightarrow> string field \<Rightarrow> string field \<Rightarrow> db \<Rightarrow> (string + user_row) \<times> db" where
  "authenticate_local w username password d =
     (if \<not> truthy username \<or> \<not> truthy password then (Inl ''Missing credentials'', d)
      else local_strategy w (text_of username) (text_of password) d)"

text \<open>
  \<open>POST /auth/login\<close>. \<open>req.logIn\<close> fails when the session cannot be established; the
  error of the update that follows is logged and dropped.
\<close>

definition post_login ::
  "world \<Rightarrow> string field \<Rightarrow> string field \<Rightarrow> db \<Rightarrow> (exn + reply) \<times> db" where
  "post_login w username password d =
     (case authenticate_local w username password d of
        (Inl info, d1) \<Rightarrow>
          (Inr (Reply 401 (Failure (if info \<noteq> [] then info else ''Authentication failed''))), d1)
      | (Inr user, d1) \<Rightarrow>
          (if \<not> session_ok w then (Inl (Error ''Failed to serialize user into session'' None), d1)
           else (Inr (Reply 200 (UserJson (Some user))),
                 snd (updateUser w (u_id user) (no_fields\<lparr>d_last_login := Val (clock w)\<rparr>) d1))))"

text \<open>\<open>POST /auth/register\<close>\<close>

definition post_register ::
  "world \<Rightarrow> string field \<Rightarrow> string field \<Rightarrow> string field \<Rightarrow> string field \<Rightarrow> db \<Rightarrow> (exn + reply) \<times> db" where
  "post_register w username email password fullName d =
     (if \<not> truthy username \<or> \<not> truthy email \<or> \<not> truthy password \<or> \<not> truthy fullName
      then (Inr (Reply 400 (Failure ''All fields are required'')), d)
      else case getUserByUsername (text_of username) d of
        Some existingUsername \<Rightarrow> (Inr (Reply 400 (Failure ''Username already taken'')), d)
      | None \<Rightarrow>
         (case getUserByEmail (text_of email) d of
            Some existingEmail \<Rightarrow> (Inr (Reply 400 (Failure ''Email already registered'')), d)
          | None \<Rightarrow>
             (case createUser w (no_fields\<lparr>d_username := username, d_email := email,
                                   d_password := password, d_full_name := fullName,
                                   d_role := Val ''user''\<rparr>) d of
                (Inl e, d') \<Rightarrow>
                  (Inr (Reply 500 (Failure ''An error occurred during registration'')), d')
              | (Inr None, d') \<Rightarrow>
                  (Inr (Reply 500 (Failure ''An error occurred during registration'')), d')
              | (Inr (Some user), d') \<Rightarrow>
                  (if \<not> session_ok w
                   then (Inl (Error ''Failed to serialize user into session'' None), d')
                   else (Inr (Reply 200 (UserJson (Some (without_password user)))), d')))))"


text \<open>
  \<open>PUT /api/admin/users/:id\<close> behind \<open>ensureAdmin\<close>. \<open>role\<close> is the role of the
  session user, \<open>userId\<close> the result of \<open>parseInt\<close> (\<open>None\<close> for \<open>NaN\<close>), and
  \<open>reqBody\<close> carries the eight keys the handler copies from the request.
\<close>

definition admin_put_user ::
  "world \<Rightarrow> string \<Rightarrow> int option \<Rightarrow> userData \<Rightarrow> db \<Rightarrow> (exn + reply) \<times> db" where
  "admin_put_user w role userId reqBody d =
     (if role \<noteq> ''admin'' then (Inr (Reply 403 (ErrorOnly ''Admin privileges required'')), d)
      else case userId of
        None \<Rightarrow> (Inr (Reply 400 (ErrorOnly ''Invalid user ID'')), d)
      | Some i \<Rightarrow>
         (case updateUser w i
                 (no_fields\<lparr>d_username := d_username reqBody, d_password := d_password reqBody,
                            d_email := d_email reqBody, d_full_name := d_full_name reqBody,
                            d_role := d_role reqBody, d_avatar := d_avatar reqBody,
                            d_address := d_address reqBody, d_dark_mode := d_dark_mode reqBody\<rparr>) d of
            (Inl e, d') \<Rightarrow> (Inr (Reply 500 (ErrorMessage ''Failed to update user'' (message e))), d')
          | (Inr None, d') \<Rightarrow> (Inr (Reply 404 (ErrorOnly ''User not found'')), d')
          | (Inr (Some user), d') \<Rightarrow>
              (Inr (Reply 200 (UserJson (Some (without_password user)))), d')))"

section \<open>Storage module: portfolios and positions\<close>

text \<open>Truthiness of a number-valued property, and \<open>x || new Date()\<close> for a timestamp.\<close>

fun truthy_num :: "rat field \<Rightarrow> bool" where
  "truthy_num (Val x) = (x \<noteq> 0)"
| "truthy_num _ = False"

fun num_of :: "rat field \<Rightarrow> rat" where
  "num_of (Val x) = x"
| "num_of _ = 0"

fun or_now :: "nat field \<Rightarrow> nat \<Rightarrow> nat" where
  "or_now (Val t) now = (if t = 0 then now else t)"
| "or_now _ now = now"

definition getPortfolio :: "int \<Rightarrow> db \<Rightarrow> portfolio_row option" where
  "getPortfolio i d = find (\<lambda>p. p_id p = i) (rows (portfolio d))"

text \<open>
  \<open>updatePortfolio\<close>: the keys \<open>name\<close> and \<open>description\<close> take part when they are
  not \<open>undefined\<close>; \<open>name\<close> is \<open>NOT NULL\<close>.
\<close>

definition updatePortfolio ::
  "int \<Rightarrow> string field \<Rightarrow> string field \<Rightarrow> db \<Rightarrow> (exn + portfolio_row option) \<times> db" where
  "updatePortfolio i name description d =
     (if name = Undefined \<and> description = Undefined then (Inr (getPortfolio i d), d)
      else if getPortfolio i d \<noteq> None \<and> name = Null
      then (Inl (not_null_failed ''portfolio.name''), d)
      else (let d' = d\<lparr>portfolio := (portfolio d)
                        \<lparr>rows := map (\<lambda>p. if p_id p = i
                                          then p\<lparr>p_name := (case name of Val n \<Rightarrow> n | _ \<Rightarrow> p_name p),
                                                 p_description :=
                                                   (if description = Undefined then p_description p
                                                    else to_sql description)\<rparr>
                                          else p)
                                   (rows (portfolio d))\<rparr>\<rparr>
            in (Inr (getPortfolio i d'), d')))"

text \<open>
  \<open>DELETE FROM portfolio WHERE id = ?\<close>; the positions of the portfolio go with it
  (\<open>ON DELETE CASCADE\<close>, foreign keys being enforced).
\<close>

definition deletePortfolio :: "int \<Rightarrow> db \<Rightarrow> bool \<times> db" where
  "deletePortfolio i d =
     (True,
      d\<lparr>portfolio := (portfolio d)\<lparr>rows := filter (\<lambda>p. p_id p \<noteq> i) (rows (portfolio d))\<rparr>,
        portfolio_positions := (portfolio_positions d)
          \<lparr>rows := (if list_ex (\<lambda>p. p_id p = i) (rows (portfolio d))
                     then filter (\<lambda>r. ps_portfolio_id r \<noteq> i) (rows (portfolio_positions d))
                     else rows (portfolio_positions d))\<rparr>\<rparr>)"

definition getPortfolioPositions :: "int \<Rightarrow> db \<Rightarrow> position_row list" where
  "getPortfolioPositions portfolioId d =
     filter (\<lambda>r. ps_portfolio_id r = portfolioId) (rows (portfolio_positions d))"

text \<open>
  A lookup by id. An \<open>undefined\<close> parameter (\<open>None\<close>) stays unbound, that is NULL, and
  \<open>id = NULL\<close> selects no row.
\<close>

definition getPosition :: "int option \<Rightarrow> db \<Rightarrow> position_row option" where
  "getPosition i d =
     (case i of None \<Rightarrow> None | Some k \<Rightarrow> find (\<lambda>r. ps_id r = k) (rows (portfolio_positions d)))"

record positionData =
  pd_portfolio_id :: int
  pd_symbol :: string
  pd_shares :: rat
  pd_purchase_price :: rat
  pd_purchase_date :: "nat field"
  pd_notes :: "string field"

text \<open>
  \<open>addPosition\<close>: the insert is subject to the foreign key into \<open>portfolio\<close>. The
  row is read back by \<open>result.lastID\<close>, which a change count does not have.
\<close>

definition addPosition :: "world \<Rightarrow> positionData \<Rightarrow> db \<Rightarrow> (exn + position_row option) \<times> db" where
  "addPosition w positionData d =
     (if getPortfolio (pd_portfolio_id positionData) d = None then (Inl foreign_key_failed, d)
      else (let d' = d\<lparr>portfolio_positions := append_row ps_id
                        (\<lambda>i. \<lparr> ps_id = i, ps_portfolio_id = pd_portfolio_id positionData,
                               ps_symbol = toUpperCase w (pd_symbol positionData),
                               ps_shares = pd_shares positionData,
                               ps_purchase_price = pd_purchase_price positionData,
                               ps_purchase_date = Some (or_now (pd_purchase_date positionData) (clock w)),
                               ps_notes = or_null (pd_notes positionData) \<rparr>)
                        (portfolio_positions d)\<rparr>
            in (Inr (getPosition None d'), d')))"

text \<open>
  \<open>updatePosition\<close>: \<open>shares\<close>, \<open>purchase_price\<close>, \<open>purchase_date\<close> and \<open>notes\<close> take part
  when they are not \<open>undefined\<close>; \<open>shares\<close> and \<open>purchase_price\<close> are \<open>NOT NULL\<close>.
\<close>

definition updatePosition ::
  "int \<Rightarrow> rat field \<Rightarrow> rat field \<Rightarrow> nat field \<Rightarrow> string field \<Rightarrow> db \<Rightarrow>
   (exn + position_row option) \<times> db" where
  "updatePosition i shares purchase_price purchase_date notes d =
     (if shares = Undefined \<and> purchase_price = Undefined \<and> purchase_date = Undefined \<and>
         notes = Undefined
      then (Inr (getPosition (Some i) d), d)
      else if getPosition (Some i) d \<noteq> None \<and> shares = Null
      then (Inl (not_null_failed ''portfolio_positions.shares''), d)
      else if getPosition (Some i) d \<noteq> None \<and> purchase_price = Null
      then (Inl (not_null_failed ''portfolio_positions.purchase_price''), d)
      else (let d' = d\<lparr>portfolio_positions := (portfolio_positions d)
                        \<lparr>rows := map (\<lambda>r. if ps_id r = i
                             then r\<lparr>ps_shares := (case shares of Val x \<Rightarrow> x | _ \<Rightarrow> ps_shares r),
                                    ps_purchase_price :=
                                      (case purchase_price of Val x \<Rightarrow> x | _ \<Rightarrow> ps_purchase_price r),
                                    ps_purchase_date :=
                                      (if purchase_date = Undefined then ps_purchase_date r
                                       else to_sql purchase_date),
                                    ps_notes := (if notes = Undefined then ps_notes r
                                                 else to_sql notes)\<rparr>
                             else r)
                           (rows (portfolio_positions d))\<rparr>\<rparr>
            in (Inr (getPosition (Some i) d'), d')))"

definition deletePosition :: "int \<Rightarrow> db \<Rightarrow> bool \<times> db" where
  "deletePosition i d =
     (True,
      d\<lparr>portfolio_positions := (portfolio_positions d)
           \<lparr>rows := filter (\<lambda>r. ps_id r \<noteq> i) (rows (portfolio_positions d))\<rparr>\<rparr>)"

section \<open>Portfolio routes\<close>

text \<open>
  Path parameters arrive as the result of \<open>parseInt\<close>: \<open>None\<close> is \<open>NaN\<close>. \<open>userId\<close>
  is the id of the session user.
\<close>

definition get_portfolio :: "int \<Rightarrow> int option \<Rightarrow> db \<Rightarrow> reply \<times> db" where
  "get_portfolio userId portfolioId d =
     (case portfolioId of
        None \<Rightarrow> (Reply 400 (ErrorOnly ''Invalid portfolio ID''), d)
      | Some i \<Rightarrow>
         (case getPortfolio i d of
            None \<Rightarrow> (Reply 404 (ErrorOnly ''Portfolio not found''), d)
          | Some found \<Rightarrow>
             (if p_user_id found \<noteq> userId then (Reply 403 (ErrorOnly ''Access denied''), d)
              else (Reply 200 (PortfolioJson found (getPortfolioPositions i d)), d))))"

definition put_portfolio ::
  "int \<Rightarrow> int option \<Rightarrow> string field \<Rightarrow> string field \<Rightarrow> db \<Rightarrow> reply \<times> db" where
  "put_portfolio userId portfolioId name description d =
     (case portfolioId of
        None \<Rightarrow> (Reply 400 (ErrorOnly ''Invalid portfolio ID''), d)
      | Some i \<Rightarrow>
         (case getPortfolio i d of
            None \<Rightarrow> (Reply 404 (ErrorOnly ''Portfolio not found''), d)
          | Some found \<Rightarrow>
             (if p_user_id found \<noteq> userId then (Reply 403 (ErrorOnly ''Access denied''), d)
              else case updatePortfolio i name description d of
                     (Inl e, d') \<Rightarrow>
                       (Reply 500 (ErrorMessage ''Failed to update portfolio'' (message e)), d')
                   | (Inr updatedPortfolio, d') \<Rightarrow>
                       (Reply 200 (PortfolioRowJson updatedPortfolio), d'))))"

definition delete_portfolio :: "int \<Rightarrow> int option \<Rightarrow> db \<Rightarrow> reply \<times> db" where
  "delete_portfolio userId portfolioId d =
     (case portfolioId of
        None \<Rightarrow> (Reply 400 (ErrorOnly ''Invalid portfolio ID''), d)
      | Some i \<Rightarrow>
         (case getPortfolio i d of
            None \<Rightarrow> (Reply 404 (ErrorOnly ''Portfolio not found''), d)
          | Some found \<Rightarrow>
             (if p_user_id found \<noteq> userId then (Reply 403 (ErrorOnly ''Access denied''), d)
              else (Reply 200 (Success ''Portfolio deleted successfully''),
                    snd (deletePortfolio i d)))))"

definition get_positions :: "int \<Rightarrow> int option \<Rightarrow> db \<Rightarrow> reply \<times> db" where
  "get_positions userId portfolioId d =
     (case portfolioId of
        None \<Rightarrow> (Reply 400 (ErrorOnly ''Invalid portfolio ID''), d)
      | Some i \<Rightarrow>
         (case getPortfolio i d of
            None \<Rightarrow> (Reply 404 (ErrorOnly ''Portfolio not found''), d)
          | Some found \<Rightarrow>
             (if p_user_id found \<noteq> userId then (Reply 403 (ErrorOnly ''Access denied''), d)
              else (Reply 200 (PositionsJson (getPortfolioPositions i d)), d))))"

record position_body =
  b_symbol :: "string field"
  b_shares :: "rat field"
  b_purchase_price :: "rat field"
  b_purchase_date :: "nat field"
  b_notes :: "string field"

definition post_position :: "world \<Rightarrow> int \<Rightarrow> int option \<Rightarrow> position_body \<Rightarrow> db \<Rightarrow> reply \<times> db" where
  "post_position w userId portfolioId reqBody d =
     (if portfolioId = None \<or> \<not> truthy (b_symbol reqBody) \<or> \<not> truthy_num (b_shares reqBody) \<or>
         \<not> truthy_num (b_purchase_price reqBody)
      then (Reply 400 (ErrorOnly ''Missing required fields: symbol, shares, purchase_price''), d)
      else case portfolioId of
        None \<Rightarrow> (Reply 400 (ErrorOnly ''Missing required fields: symbol, shares, purchase_price''), d)
      | Some i \<Rightarrow>
         (case getPortfolio i d of
            None \<Rightarrow> (Reply 404 (ErrorOnly ''Portfolio not found''), d)
          | Some found \<Rightarrow>
             (if p_user_id found \<noteq> userId then (Reply 403 (ErrorOnly ''Access denied''), d)
              else case addPosition w
                          \<lparr> pd_portfolio_id = i, pd_symbol = text_of (b_symbol reqBody),
                            pd_shares = num_of (b_shares reqBody),
                            pd_purchase_price = num_of (b_purchase_price reqBody),
                            pd_purchase_date = b_purchase_date reqBody,
                            pd_notes = b_notes reqBody \<rparr> d of
                     (Inl e, d') \<Rightarrow>
                       (Reply 500 (ErrorMessage ''Failed to add position'' (message e)), d')
                   | (Inr position, d') \<Rightarrow> (Reply 201 (PositionJson position), d'))))"

definition put_position ::
  "int \<Rightarrow> int option \<Rightarrow> int option \<Rightarrow> position_body \<Rightarrow> db \<Rightarrow> reply \<times> db" where
  "put_position userId portfolioId positionId reqBody d =
     (case (portfolioId, positionId) of
        (Some i, Some k) \<Rightarrow>
         (case getPortfolio i d of
            None \<Rightarrow> (Reply 404 (ErrorOnly ''Portfolio not found''), d)
          | Some found \<Rightarrow>
             (if p_user_id found \<noteq> userId then (Reply 403 (ErrorOnly ''Access denied''), d)
              else case getPosition (Some k) d of
                None \<Rightarrow> (Reply 404 (ErrorOnly ''Position not found''), d)
              | Some position \<Rightarrow>
                 (if ps_portfolio_id position \<noteq> i
                  then (Reply 400 (ErrorOnly ''Position does not belong to this portfolio''), d)
                  else case updatePosition k (b_shares reqBody) (b_purchase_price reqBody)
                              (b_purchase_date reqBody) (b_notes reqBody) d of
                         (Inl e, d') \<Rightarrow>
                           (Reply 500 (ErrorMessage ''Failed to update position'' (message e)), d')
                       | (Inr updatedPosition, d') \<Rightarrow>
                           (Reply 200 (PositionJson updatedPosition), d'))))
      | _ \<Rightarrow> (Reply 400 (ErrorOnly ''Invalid portfolio or position ID''), d))"

definition delete_position :: "int \<Rightarrow> int option \<Rightarrow> int option \<Rightarrow> db \<Rightarrow> reply \<times> db" where
  "delete_position userId portfolioId positionId d =
     (case (portfolioId, positionId) of
        (Some i, Some k) \<Rightarrow>
         (case getPortfolio i d of
            None \<Rightarrow> (Reply 404 (ErrorOnly ''Portfolio not found''), d)
          | Some found \<Rightarrow>
             (if p_user_id found \<noteq> userId then (Reply 403 (ErrorOnly ''Access denied''), d)
              else case getPosition (Some k) d of
                None \<Rightarrow> (Reply 404 (ErrorOnly ''Position not found''), d)
              | Some position \<Rightarrow>
                 (if ps_portfolio_id position \<noteq> i
                  then (Reply 400 (ErrorOnly ''Position does not belong to this portfolio''), d)
                  else (Reply 200 (Success ''Position deleted successfully''),
                        snd (deletePosition k d)))))
      | _ \<Rightarrow> (Reply 400 (ErrorOnly ''Invalid portfolio or position ID''), d))"

text \<open>The portfolio-scoped requests, and the route each one reaches.\<close>

datatype portfolio_request =
    GetPortfolio "int option"
  | PutPortfolio "int option" "string field" "string field"
  | DeletePortfolio "int option"
  | GetPositions "int option"
  | PostPosition "int option" position_body
  | PutPosition "int option" "int option" position_body
  | DeletePosition "int option" "int option"

fun portfolio_route :: "world \<Rightarrow> int \<Rightarrow> portfolio_request \<Rightarrow> db \<Rightarrow> reply \<times> db" where
  "portfolio_route w userId (GetPortfolio i) d = get_portfolio userId i d"
| "portfolio_route w userId (PutPortfolio i name description) d =
     put_portfolio userId i name description d"
| "portfolio_route w userId (DeletePortfolio i) d = delete_portfolio userId i d"
| "portfolio_route w userId (GetPositions i) d = get_positions userId i d"
| "portfolio_route w userId (PostPosition i reqBody) d = post_position w userId i reqBody d"
| "portfolio_route w userId (PutPosition i k reqBody) d = put_position userId i k reqBody d"
| "portfolio_route w userId (DeletePosition i k) d = delete_position userId i k d"

text \<open>The portfolio a request names, once the request has passed the route's 400 checks.\<close>

fun validated_portfolio_id :: "portfolio_request \<Rightarrow> int option" where
  "validated_portfolio_id (GetPortfolio i) = i"
| "validated_portfolio_id (PutPortfolio i name description) = i"
| "validated_portfolio_id (DeletePortfolio i) = i"
| "validated_portfolio_id (GetPositions i) = i"
| "validated_portfolio_id (PostPosition i reqBody) =
     (if truthy (b_symbol reqBody) \<and> truthy_num (b_shares reqBody) \<and>
         truthy_num (b_purchase_price reqBody) then i else None)"
| "validated_portfolio_id (PutPosition i k reqBody) = (if k = None then None else i)"
| "validated_portfolio_id (DeletePosition i k) = (if k = None then None else i)"

section \<open>Storage module: restricted and featured stocks\<close>

record restrictedData =
  rd_symbol :: string
  rd_reason :: "string field"
  rd_added_by :: "int option"

record restricted_entry =
  re_id :: "int option"
  re_symbol :: string
  re_reason :: "string field"
  re_added_by :: "int option"
  re_added_at :: nat

text \<open>
  \<open>addRestrictedStock\<close>: the insert is subject to \<open>UNIQUE(symbol)\<close> and to the foreign
  key of \<open>added_by\<close>. The returned object takes its id from \<open>result.lastID\<close>, which a
  change count does not have.
\<close>

definition addRestrictedStock ::
  "world \<Rightarrow> restrictedData \<Rightarrow> db \<Rightarrow> (exn + restricted_entry) \<times> db" where
  "addRestrictedStock w stockData d =
     (if list_ex (\<lambda>r. r_symbol r = toUpperCase w (rd_symbol stockData)) (rows (restricted_stocks d))
      then (Inl (unique_failed ''restricted_stocks.symbol''), d)
      else if \<not> fk_user (rd_added_by stockData) d then (Inl foreign_key_failed, d)
      else (Inr \<lparr> re_id = None, re_symbol = toUpperCase w (rd_symbol stockData),
                   re_reason = rd_reason stockData, re_added_by = rd_added_by stockData,
                   re_added_at = clock w \<rparr>,
            d\<lparr>restricted_stocks := append_row r_id
                 (\<lambda>i. \<lparr> r_id = i, r_symbol = toUpperCase w (rd_symbol stockData),
                        r_reason = or_null (rd_reason stockData), r_added_at = clock w,
                        r_added_by = rd_added_by stockData \<rparr>)
                 (restricted_stocks d)\<rparr>))"

record featuredData =
  fd_symbol :: string
  fd_title :: string
  fd_description :: "string field"
  fd_start_date :: "nat field"
  fd_end_date :: "nat field"
  fd_added_by :: "int option"

fun date_or_null :: "nat field \<Rightarrow> nat option" where
  "date_or_null (Val t) = (if t = 0 then None else Some t)"
| "date_or_null _ = None"

text \<open>\<open>SELECT * FROM featured_stocks WHERE id = ?\<close>, with an \<open>undefined\<close> id as \<open>None\<close>.\<close>

definition getFeaturedStock :: "int option \<Rightarrow> db \<Rightarrow> featured_row option" where
  "getFeaturedStock i d =
     (case i of None \<Rightarrow> None | Some k \<Rightarrow> find (\<lambda>r. f_id r = k) (rows (featured_stocks d)))"

definition addFeaturedStock ::
  "world \<Rightarrow> featuredData \<Rightarrow> db \<Rightarrow> (exn + featured_row option) \<times> db" where
  "addFeaturedStock w stockData d =
     (if \<not> fk_user (fd_added_by stockData) d then (Inl foreign_key_failed, d)
      else (let d' = d\<lparr>featured_stocks := append_row f_id
                        (\<lambda>i. \<lparr> f_id = i, f_symbol = toUpperCase w (fd_symbol stockData),
                               f_title = fd_title stockData,
                               f_description = or_null (fd_description stockData),
                               f_start_date = or_now (fd_start_date stockData) (clock w),
                               f_end_date = date_or_null (fd_end_date stockData),
                               f_added_by = fd_added_by stockData \<rparr>)
                        (featured_stocks d)\<rparr>
            in (Inr (getFeaturedStock None d'), d')))"

section \<open>Schema initialization\<close>










section \<open>A concrete scenario\<close>

text \<open>
  Two accounts, one restricted symbol, one portfolio with one position, and a provider
  that knows the quotes of \<open>AMZN\<close> and \<open>XYZ\<close>. The closed statements below are
  evaluated on this scenario.
\<close>

definition empty_table :: "'r table" where
  "empty_table = \<lparr> rows = [], seq = 0 \<rparr>"

definition alice :: user_row where
  "alice = \<lparr> u_id = 1, u_username = ''alice'', u_password = Some ''hash:secret'',
             u_email = ''alice@example.com'', u_full_name = ''Alice A'', u_role = ''user'',
             u_avatar = None, u_address = None, u_dark_mode = 0, u_created_at = 10,
             u_last_login = None, u_google_id = None \<rparr>"

definition bob :: user_row where
  "bob = \<lparr> u_id = 2, u_username = ''bob'', u_password = Some ''hash:hunter2'',
           u_email = ''bob@example.com'', u_full_name = ''Bob B'', u_role = ''admin'',
           u_avatar = None, u_address = None, u_dark_mode = 1, u_created_at = 20,
           u_last_login = Some 30, u_google_id = None \<rparr>"

definition amzn :: quote where
  "amzn = \<lparr> q_price = 180, q_name = ''Amazon.com, Inc.'', q_changesPercentage = 1 \<rparr>"

definition example_db :: db where
  "example_db =
     \<lparr> users = \<lparr> rows = [alice, bob], seq = 2 \<rparr>,
       user_watchlist = empty_table,
       portfolio = \<lparr> rows = [\<lparr> p_id = 1, p_user_id = 1, p_name = ''Growth'',
                                 p_description = None, p_created_at = 50 \<rparr>], seq = 1 \<rparr>,
       portfolio_positions =
         \<lparr> rows = [\<lparr> ps_id = 1, ps_portfolio_id = 1, ps_symbol = ''AMZN'', ps_shares = 3,
                      ps_purchase_price = 170, ps_purchase_date = Some 60, ps_notes = None \<rparr>],
           seq = 1 \<rparr>,
       restricted_stocks =
         \<lparr> rows = [\<lparr> r_id = 1, r_symbol = ''XYZ'', r_reason = None, r_added_at = 40,
                      r_added_by = Some 2 \<rparr>], seq = 1 \<rparr>,
       featured_stocks = empty_table,
       api_logs = empty_table \<rparr>"

text \<open>
  Every string of the scenario is ASCII, where \<open>toUpperCase\<close> moves the letters
  \<open>a\<close>..\<open>z\<close> (codes 97..122) down by 32 and keeps every other character.
\<close>

definition ascii_upper_char :: "char \<Rightarrow> char" where
  "ascii_upper_char c =
     (let n = (of_char c :: nat) in if 97 \<le> n \<and> n \<le> 122 then char_of (n - 32) else c)"

definition ascii_upper :: "string \<Rightarrow> string" where
  "ascii_upper s = map ascii_upper_char s"

definition example_world :: world where
  "example_world =
     \<lparr> clock = 1000, latency = 5,
       bcrypt_hash = (\<lambda>p. ''hash:'' @ p),
       bcrypt_compare = (\<lambda>p h. h = ''hash:'' @ p),
       session_ok = True,
       fmp_quote = (\<lambda>s. if s = ''AMZN'' \<or> s = ''XYZ'' \<or> s = ''xyz''
                          then Responded [amzn] else Responded []),
       fmp_profile = (\<lambda>s. Responded []),
       fmp_historical = (\<lambda>s. Responded None),
       fmp_search = (\<lambda>s. Responded []),
       toUpperCase = ascii_upper \<rparr>"

text \<open>A provider that rejects every call: by status 429, or by the marker in its error text.\<close>

definition rate_limited_world :: world where
  "rate_limited_world = example_world
     \<lparr> fmp_quote := (\<lambda>s. Failed (Some 429) None ''Request failed with status code 429''),
       fmp_profile := (\<lambda>s. Failed (Some 429) None ''Request failed with status code 429''),
       fmp_historical := (\<lambda>s. Failed (Some 403) (Some ''Limit Reach . Please upgrade your plan'')
                                 ''Request failed with status code 403''),
       fmp_search := (\<lambda>s. Failed None None ''Limit Reach'') \<rparr>"


definition no_symbol :: position_body where
  "no_symbol = \<lparr> b_symbol = Undefined, b_shares = Val 2, b_purchase_price = Val 10,
                 b_purchase_date = Undefined, b_notes = Undefined \<rparr>"

text \<open>What the admin and portfolio routes hand to the three other inserts.\<close>

definition msft_position :: positionData where
  "msft_position = \<lparr> pd_portfolio_id = 1, pd_symbol = ''msft'', pd_shares = 2,
                     pd_purchase_price = 410, pd_purchase_date = Undefined,
                     pd_notes = Undefined \<rparr>"

definition gme_restricted :: restrictedData where
  "gme_restricted = \<lparr> rd_symbol = ''Gme'', rd_reason = Val ''volatile'', rd_added_by = Some 2 \<rparr>"

definition nvda_featured :: featuredData where
  "nvda_featured = \<lparr> fd_symbol = ''nvda'', fd_title = ''Chips'', fd_description = Undefined,
                     fd_start_date = Undefined, fd_end_date = Undefined, fd_added_by = Some 2 \<rparr>"




section \<open>Frame lemmas for the store\<close>

lemma append_row_rows [simp]: "rows (append_row idf mk t) = rows t @ [mk (next_id idf t)]"
  by (simp add: append_row_def)

lemma logApiRequest_frame [simp]:
  "users (logApiRequest w u ep ok rt em d) = users d"
  "user_watchlist (logApiRequest w u ep ok rt em d) = user_watchlist d"
  "portfolio (logApiRequest w u ep ok rt em d) = portfolio d"
  "portfolio_positions (logApiRequest w u ep ok rt em d) = portfolio_positions d"
  "restricted_stocks (logApiRequest w u ep ok rt em d) = restricted_stocks d"
  "featured_stocks (logApiRequest w u ep ok rt em d) = featured_stocks d"
  by (simp_all add: logApiRequest_def storage_logApiRequest_def)

lemma fetchStockQuote_frame [simp]:
  "users (snd (fetchStockQuote w s u d)) = users d"
  "user_watchlist (snd (fetchStockQuote w s u d)) = user_watchlist d"
  "portfolio (snd (fetchStockQuote w s u d)) = portfolio d"
  "portfolio_positions (snd (fetchStockQuote w s u d)) = portfolio_positions d"
  "restricted_stocks (snd (fetchStockQuote w s u d)) = restricted_stocks d"
  "featured_stocks (snd (fetchStockQuote w s u d)) = featured_stocks d"
  by (simp_all add: fetchStockQuote_def Let_def split: upstream.splits)

lemma fetchStockQuote_resolved:
  "s \<noteq> [] \<Longrightarrow> fmp_quote w s = Responded (q # qs) \<Longrightarrow>
     fst (fetchStockQuote w s u d) = Inr (Some q)"
  by (simp add: fetchStockQuote_def)

lemma fetchStockQuote_no_data:
  "s \<noteq> [] \<Longrightarrow> fmp_quote w s = Responded [] \<Longrightarrow> fst (fetchStockQuote w s u d) = Inr None"
  by (simp add: fetchStockQuote_def)

section \<open>Rate limits on the market-data endpoints\<close>

text \<open>
  Whatever endpoint makes the call, a rate-limit rejection by the provider leaves the
  client as the plain error \<open>API rate limit reached. Please try again later.\<close>; the
  stock routes hand it to \<open>next\<close>, and the API error handler, finding no status on
  it, answers 500.
\<close>

lemma rate_limit_reaches_error_handler:
  assumes "provider_answer w r = Some (st, e, m)"
    and "st = Some 429 \<or> str_includes (errorMessage_of e m) ''Limit Reach''"
  shows "fst (stock_endpoint w userId r d) =
           Reply 500 (Failure ''API rate limit reached. Please try again later.'')"
proof (cases r)
  case (Quote s)
  with assms show ?thesis
    by (auto simp: get_quote_def fetchStockQuote_def api_respond_def api_error_handler_def
        rate_limit_error_def Let_def split: upstream.splits if_splits)
next
  case (CompanyProfile s)
  with assms show ?thesis
    by (auto simp: get_profile_def fetchCompanyProfile_def api_respond_def api_error_handler_def
        rate_limit_error_def Let_def split: upstream.splits if_splits)
next
  case (Historical s)
  with assms show ?thesis
    by (auto simp: get_historical_def fetchHistoricalData_def api_respond_def
        api_error_handler_def rate_limit_error_def Let_def
        split: upstream.splits if_splits)
next
  case (Search q)
  with assms show ?thesis
    by (auto simp: get_search_def searchStocks_def api_respond_def api_error_handler_def
        rate_limit_error_def Let_def split: upstream.splits if_splits)
qed

text \<open>
  The watchlist route, given the same error by the client, answers 429.
\<close>

lemma watchlist_maps_rate_limit_to_429:
  "fst (watchlist_post rate_limited_world 1 (Val ''AMZN'') example_db)
     = Reply 429 (Failure ''API rate limit reached. Please try again later.'')"
  by code_simp

text \<open>
  C5. Claimed: on each of the four market-data read endpoints a rate-limit rejection by
  the provider is answered with status 429 and a message containing \<open>rate limit\<close>.
  Evaluated on a provider that rejects the quote and profile calls with status 429, the
  historical call with \<open>Limit Reach\<close> in its error body and the search call with
  \<open>Limit Reach\<close> in its message: every endpoint answers 500. The message does contain
  \<open>rate limit\<close>.
\<close>

theorem rate_limit_answered_500:
  "map (\<lambda>r. fst (stock_endpoint rate_limited_world 1 r example_db))
     [Quote ''AAPL'', CompanyProfile ''MSFT'', Historical ''TSLA'', Search ''apple'']
   = replicate 4 (Reply 500 (Failure ''API rate limit reached. Please try again later.''))
   \<and> str_includes ''API rate limit reached. Please try again later.'' ''rate limit''"
  by code_simp

section \<open>Adding to the watchlist\<close>

text \<open>
  The outer handler of the route would turn the duplicate error into 400, had the error
  reached it.
\<close>

lemma outer_catch_duplicate:
  "post_items_outer_catch (Error ''Stock AMZN is already in your watchlist'' None) d =
     (Inr (Reply 400 (Failure ''Stock AMZN is already in your watchlist'')), d)"
  by (simp add: post_items_outer_catch_def)

text \<open>
  A second add is answered by the inner handler: when the quote resolves, the symbol is
  not restricted and the pair is already in the watchlist, \<open>addToWatchlist\<close> throws
  the duplicate error inside the inner \<open>try\<close>, and the answer is 500.
\<close>

lemma duplicate_add_answered_500:
  assumes "fst (fetchStockQuote w symbol (Some userId) d) = Inr (Some q)"
    and "\<not> list_ex (\<lambda>stock. toUpperCase w (r_symbol stock) = toUpperCase w symbol)
             (getRestrictedStocks d)"
    and "isInWatchlist w userId symbol d"
    and "\<not> str_includes (''Stock '' @ symbol @ '' is already in your watchlist'') ''API rate limit''"
  shows "fst (watchlist_post w userId (Val symbol) d) =
           Reply 500 (Failure (''Error adding stock to watchlist: '' @
                               ''Stock '' @ symbol @ '' is already in your watchlist''))"
proof -
  obtain r d1 where f: "fetchStockQuote w symbol (Some userId) d = (r, d1)"
    by (cases "fetchStockQuote w symbol (Some userId) d")
  from assms(1) f have r: "r = Inr (Some q)" by simp
  from assms(1) have nonempty: "symbol \<noteq> []" by (auto simp: fetchStockQuote_def)
  have d1: "restricted_stocks d1 = restricted_stocks d" "user_watchlist d1 = user_watchlist d"
    using fetchStockQuote_frame(5,2)[of w symbol "Some userId" d] f by simp_all
  have dup: "addToWatchlist w userId symbol d1 =
               (Inl (Error (''Stock '' @ symbol @ '' is already in your watchlist'') None), d1)"
    using assms(3) d1(2)
    by (simp add: addToWatchlist_def insert_user_watchlist_def isInWatchlist_def unique_failed_def)
  have "post_items_try w userId symbol d =
          (Inl (Error (''Stock '' @ symbol @ '' is already in your watchlist'') None), d1)"
    using assms(2) f r d1(1) dup by (simp add: post_items_try_def getRestrictedStocks_def)
  then show ?thesis
    using nonempty assms(4)
    by (simp add: watchlist_post_def post_items_def try_catch_def api_respond_def
        post_items_catch_def)
qed

text \<open>
  C1. Claimed: the first add of a resolvable, unrestricted symbol answers 201 and the
  second identical add answers 400 or 409 with a message containing
  \<open>already in watchlist\<close>. Evaluated for user 1 and \<open>AMZN\<close>: the first add answers
  201; the second is answered by the inner handler of the route with 500, and its
  message reads \<open>already in your watchlist\<close>, which does not contain
  \<open>already in watchlist\<close>.
\<close>

theorem second_add_answered_500:
  "http_status (fst (watchlist_post example_world 1 (Val ''AMZN'') example_db)) = 201
   \<and> fst (watchlist_post example_world 1 (Val ''AMZN'')
            (snd (watchlist_post example_world 1 (Val ''AMZN'') example_db)))
       = Reply 500 (Failure
           ''Error adding stock to watchlist: Stock AMZN is already in your watchlist'')
   \<and> \<not> str_includes
           ''Error adding stock to watchlist: Stock AMZN is already in your watchlist''
           ''already in watchlist''"
  by code_simp

lemma post_items_try_restricted:
  assumes "list_ex (\<lambda>stock. toUpperCase w (r_symbol stock) = toUpperCase w symbol)
             (getRestrictedStocks d)"
  shows "user_watchlist (snd (post_items_try w userId symbol d)) = user_watchlist d"
proof -
  obtain r d1 where f: "fetchStockQuote w symbol (Some userId) d = (r, d1)"
    by (cases "fetchStockQuote w symbol (Some userId) d")
  have d1: "user_watchlist d1 = user_watchlist d" "restricted_stocks d1 = restricted_stocks d"
    using fetchStockQuote_frame(2,5)[of w symbol "Some userId" d] f by simp_all
  show ?thesis
    using assms d1 f
    by (cases r)
      (auto simp: post_items_try_def getRestrictedStocks_def Let_def split: option.splits)
qed

text \<open>
  C2. For a symbol that the restricted-stocks table holds up to letter case, a POST to
  the watchlist never changes the watchlist table, whatever the provider answers. It is
  answered 403 when the quote resolves, and 404 when the provider has no quote for the
  symbol: the restricted list is consulted only after the quote has resolved.
\<close>

theorem restricted_symbol_is_refused:
  assumes "list_ex (\<lambda>stock. toUpperCase w (r_symbol stock) = toUpperCase w symbol)
             (getRestrictedStocks d)"
  shows "user_watchlist (snd (watchlist_post w userId (Val symbol) d)) = user_watchlist d
       \<and> getUserWatchlist userId (snd (watchlist_post w userId (Val symbol) d))
           = getUserWatchlist userId d
       \<and> ((\<exists>q. fst (fetchStockQuote w symbol (Some userId) d) = Inr (Some q)) \<longrightarrow>
            fst (watchlist_post w userId (Val symbol) d) =
              Reply 403 (Failure (''Stock '' @ symbol @
                                  '' is restricted and cannot be added to watchlists.'')))
       \<and> (symbol \<noteq> [] \<and> fmp_quote w symbol = Responded [] \<longrightarrow>
            fst (watchlist_post w userId (Val symbol) d) =
              Reply 404 (Failure (''Invalid stock symbol: '' @ symbol)))"
proof -
  obtain r d1 where f: "fetchStockQuote w symbol (Some userId) d = (r, d1)"
    by (cases "fetchStockQuote w symbol (Some userId) d")
  have d1: "restricted_stocks d1 = restricted_stocks d"
    using fetchStockQuote_frame(5)[of w symbol "Some userId" d] f by simp
  obtain a d2 where t: "post_items_try w userId symbol d = (a, d2)"
    by (cases "post_items_try w userId symbol d")
  have "user_watchlist d2 = user_watchlist d"
    using post_items_try_restricted[OF assms, of userId] t by simp
  then have unchanged:
    "user_watchlist (snd (watchlist_post w userId (Val symbol) d)) = user_watchlist d"
    using t
    by (cases a) (auto simp: watchlist_post_def post_items_def try_catch_def api_respond_def
        post_items_catch_def post_items_outer_catch_def)
  have resolved: "fst (watchlist_post w userId (Val symbol) d) =
              Reply 403 (Failure (''Stock '' @ symbol @
                                  '' is restricted and cannot be added to watchlists.''))"
    if "fst (fetchStockQuote w symbol (Some userId) d) = Inr (Some q)" for q
  proof -
    from that f have r: "r = Inr (Some q)" by simp
    from that have nonempty: "symbol \<noteq> []" by (auto simp: fetchStockQuote_def)
    have "post_items_try w userId symbol d =
            (Inr (Reply 403 (Failure (''Stock '' @ symbol @
                    '' is restricted and cannot be added to watchlists.''))), d1)"
      using assms f r d1 by (simp add: post_items_try_def getRestrictedStocks_def)
    then show ?thesis
      using nonempty
      by (simp add: watchlist_post_def post_items_def try_catch_def api_respond_def)
  qed
  have no_data: "fst (watchlist_post w userId (Val symbol) d) =
              Reply 404 (Failure (''Invalid stock symbol: '' @ symbol))"
    if "symbol \<noteq> []" and "fmp_quote w symbol = Responded []"
  proof -
    have r: "r = Inr None"
      using fetchStockQuote_no_data[OF that, of "Some userId" d] f by simp
    have "post_items_try w userId symbol d =
            (Inr (Reply 404 (Failure (''Invalid stock symbol: '' @ symbol))), d1)"
      using f r by (simp add: post_items_try_def)
    then show ?thesis
      using that(1)
      by (simp add: watchlist_post_def post_items_def try_catch_def api_respond_def)
  qed
  from unchanged resolved no_data show ?thesis
    by (auto simp: getUserWatchlist_def)
qed

theorem restricted_symbol_is_refused_witness:
  "list_ex (\<lambda>stock. toUpperCase example_world (r_symbol stock) = toUpperCase example_world ''xyz'')
     (getRestrictedStocks example_db)
   \<and> fst (fetchStockQuote example_world ''xyz'' (Some 1) example_db) = Inr (Some amzn)
   \<and> user_watchlist (snd (watchlist_post example_world 1 (Val ''xyz'') example_db))
       = user_watchlist example_db
   \<and> fst (watchlist_post example_world 1 (Val ''xyz'') example_db)
       = Reply 403 (Failure ''Stock xyz is restricted and cannot be added to watchlists.'')
   \<and> list_ex (\<lambda>stock. toUpperCase example_world (r_symbol stock) = toUpperCase example_world ''Xyz'')
       (getRestrictedStocks example_db)
   \<and> fmp_quote example_world ''Xyz'' = Responded []
   \<and> fst (watchlist_post example_world 1 (Val ''Xyz'') example_db)
       = Reply 404 (Failure ''Invalid stock symbol: Xyz'')"
proof -
  have r1: "list_ex (\<lambda>stock. toUpperCase example_world (r_symbol stock) = toUpperCase example_world ''xyz'')
              (getRestrictedStocks example_db)"
    by code_simp
  have r2: "list_ex (\<lambda>stock. toUpperCase example_world (r_symbol stock) = toUpperCase example_world ''Xyz'')
              (getRestrictedStocks example_db)"
    by code_simp
  have q1: "fst (fetchStockQuote example_world ''xyz'' (Some 1) example_db) = Inr (Some amzn)"
    by code_simp
  have q2: "fmp_quote example_world ''Xyz'' = Responded []"
    by (simp add: example_world_def)
  have n2: "''Xyz'' \<noteq> []"
    by simp
  show ?thesis
    using restricted_symbol_is_refused[OF r1, of 1]
      restricted_symbol_is_refused[OF r2, of 1] r1 r2 q1 q2 n2
    by simp
qed


section \<open>Users: login, partial update, roles\<close>

lemma find_map_preserving:
  assumes "\<And>x. P (f x) = P x"
  shows "find P (map f xs) = map_option f (find P xs)"
  using assms by (induction xs) auto

lemma updateFields_last_login_only [simp]:
  "updateFields w (no_fields\<lparr>d_last_login := x\<rparr>) = []"
  by (simp add: updateFields_def no_fields_def)

lemma updateUser_no_fields:
  "updateFields w userData = [] \<Longrightarrow> updateUser w i userData d = (Inr (getUser i d), d)"
  by (simp add: updateUser_def)

text \<open>
  C3. A login that carries a non-empty user name and password, the name of a stored user
  and a password that matches the stored hash leaves that user's record in the store
  with \<open>last_login\<close> set to the time of the login, every other column as before; when
  the session is established the answer is 200. The write is the one of the local
  strategy (\<open>updateLastLogin\<close>); the \<open>updateUser\<close> call of the route that follows
  finds no field to write.
\<close>

theorem login_updates_last_login:
  assumes "username \<noteq> []" and "password \<noteq> []"
    and "getUserByUsername username d = Some u"
    and "u_password u = Some h" and "h \<noteq> []" and "bcrypt_compare w password h"
  shows "getUserByUsername username (snd (post_login w (Val username) (Val password) d)) =
           Some (u\<lparr>u_last_login := Some (clock w)\<rparr>)
       \<and> (session_ok w \<longrightarrow>
            fst (post_login w (Val username) (Val password) d) =
              Inr (Reply 200 (UserJson (Some (without_password u)))))"
proof -
  let ?d1 = "snd (updateLastLogin w (u_id u) d)"
  have ls: "authenticate_local w (Val username) (Val password) d
              = (Inr (without_password u), ?d1)"
    using assms by (simp add: authenticate_local_def local_strategy_def)
  have id: "u_id (without_password u) = u_id u" by (simp add: without_password_def)
  have noop: "snd (updateUser w (u_id u) (no_fields\<lparr>d_last_login := Val (clock w)\<rparr>) ?d1) = ?d1"
    by (simp add: updateUser_no_fields)
  have final: "snd (post_login w (Val username) (Val password) d) = ?d1"
    using ls id noop by (simp add: post_login_def)
  have "getUserByUsername username ?d1 = Some (u\<lparr>u_last_login := Some (clock w)\<rparr>)"
    using assms(3)
    by (simp add: getUserByUsername_def updateLastLogin_def find_map_preserving)
  with final ls id show ?thesis by (simp add: post_login_def)
qed

theorem login_updates_last_login_witness:
  "''alice'' \<noteq> [] \<and> ''secret'' \<noteq> []
   \<and> getUserByUsername ''alice'' example_db = Some alice
   \<and> u_password alice = Some ''hash:secret''
   \<and> bcrypt_compare example_world ''secret'' ''hash:secret''
   \<and> getUserByUsername ''alice''
       (snd (post_login example_world (Val ''alice'') (Val ''secret'') example_db))
       = Some (alice\<lparr>u_last_login := Some 1000\<rparr>)
   \<and> fst (post_login example_world (Val ''alice'') (Val ''secret'') example_db)
       = Inr (Reply 200 (UserJson (Some (without_password alice))))"
proof -
  have n1: "''alice'' \<noteq> []" and n2: "''secret'' \<noteq> []"
    by simp_all
  have h1: "getUserByUsername ''alice'' example_db = Some alice"
    by code_simp
  have h2: "u_password alice = Some ''hash:secret''"
    by (simp add: alice_def)
  have h3: "''hash:secret'' \<noteq> []"
    by simp
  have h4: "bcrypt_compare example_world ''secret'' ''hash:secret''"
    by (simp add: example_world_def)
  have w: "clock example_world = 1000" "session_ok example_world"
    by (simp_all add: example_world_def)
  from login_updates_last_login[OF n1 n2 h1 h2 h3 h4] h1 h2 h4 w
  show ?thesis by simp
qed

text \<open>
  A login request without a user name or without a password is answered 401 before the
  verify callback runs, and writes nothing.
\<close>

lemma login_missing_credentials:
  assumes "\<not> truthy username \<or> \<not> truthy password"
  shows "post_login w username password d
           = (Inr (Reply 401 (Failure ''Missing credentials'')), d)"
  using assms by (auto simp: post_login_def authenticate_local_def)

lemma assign_keeps [simp]:
  "u_id (assign a u) = u_id u" "u_role (assign a u) = u_role u"
  "u_created_at (assign a u) = u_created_at u" "u_last_login (assign a u) = u_last_login u"
  by (cases "(a, u)" rule: assign.cases; simp)+

lemma assign_all_keeps [simp]:
  "u_id (assign_all as u) = u_id u" "u_role (assign_all as u) = u_role u"
  "u_created_at (assign_all as u) = u_created_at u" "u_last_login (assign_all as u) = u_last_login u"
  unfolding assign_all_def by (induction as arbitrary: u; simp)+

lemma update_users_roles:
  "map (\<lambda>u. (u_id u, u_role u)) (rows (users (snd (update_users as i d)))) =
   map (\<lambda>u. (u_id u, u_role u)) (rows (users d))"
  by (auto simp: update_users_def split: option.splits list.splits)

lemma updateUser_roles:
  "map (\<lambda>u. (u_id u, u_role u)) (rows (users (snd (updateUser w i userData d)))) =
   map (\<lambda>u. (u_id u, u_role u)) (rows (users d))"
proof (cases "updateFields w userData = []")
  case True
  then show ?thesis by (simp add: updateUser_def)
next
  case False
  obtain r d' where u: "update_users (updateFields w userData) i d = (r, d')"
    by (cases "update_users (updateFields w userData) i d")
  have "map (\<lambda>u. (u_id u, u_role u)) (rows (users d')) = map (\<lambda>u. (u_id u, u_role u)) (rows (users d))"
    using update_users_roles[of "updateFields w userData" i d] u by simp
  with False u show ?thesis by (cases r) (simp_all add: updateUser_def)
qed

lemma role_by_id:
  "map (\<lambda>u. (u_id u, u_role u)) xs = map (\<lambda>u. (u_id u, u_role u)) ys \<Longrightarrow>
   map_option u_role (find (\<lambda>u. u_id u = j) xs) = map_option u_role (find (\<lambda>u. u_id u = j) ys)"
proof (induction xs arbitrary: ys)
  case Nil
  then show ?case by simp
next
  case (Cons x xs)
  then obtain y ys' where ys: "ys = y # ys'" by (cases ys) auto
  with Cons show ?case by auto
qed

text \<open>
  C10. Whatever the payload, and whether the update is accepted or rejected,
  \<open>updateUser\<close> leaves the role of every user as it was; so does the admin endpoint
  \<open>PUT /api/admin/users/:id\<close>, which passes the role of the request body on.
\<close>

theorem updateUser_never_changes_role:
  "map_option u_role (getUser j (snd (updateUser w i userData d))) = map_option u_role (getUser j d)
   \<and> map_option u_role (getUser j (snd (admin_put_user w role userId reqBody d)))
       = map_option u_role (getUser j d)"
proof
  show "map_option u_role (getUser j (snd (updateUser w i userData d))) = map_option u_role (getUser j d)"
    unfolding getUser_def by (rule role_by_id) (rule updateUser_roles)
next
  let ?data = "no_fields\<lparr>d_username := d_username reqBody, d_password := d_password reqBody,
                            d_email := d_email reqBody, d_full_name := d_full_name reqBody,
                            d_role := d_role reqBody, d_avatar := d_avatar reqBody,
                            d_address := d_address reqBody, d_dark_mode := d_dark_mode reqBody\<rparr>"
  have "map (\<lambda>u. (u_id u, u_role u)) (rows (users (snd (admin_put_user w role userId reqBody d)))) =
        map (\<lambda>u. (u_id u, u_role u)) (rows (users d))"
  proof (cases "role = ''admin''")
    case False
    then show ?thesis by (simp add: admin_put_user_def)
  next
    case True
    show ?thesis
    proof (cases userId)
      case None
      with True show ?thesis by (simp add: admin_put_user_def)
    next
      case (Some i)
      obtain r d' where u: "updateUser w i ?data d = (r, d')" by (cases "updateUser w i ?data d")
      have "map (\<lambda>u. (u_id u, u_role u)) (rows (users d')) = map (\<lambda>u. (u_id u, u_role u)) (rows (users d))"
        using updateUser_roles[of w i ?data d] u by simp
      with True Some u show ?thesis
        by (cases r) (auto simp: admin_put_user_def split: option.splits)
    qed
  qed
  then show "map_option u_role (getUser j (snd (admin_put_user w role userId reqBody d)))
       = map_option u_role (getUser j d)"
    unfolding getUser_def by (rule role_by_id)
qed




















section \<open>Registration\<close>

text \<open>
  \<open>POST /auth/register\<close> checks first that the four required fields are there: a
  request that lacks one is answered 400 \<open>All fields are required\<close> whatever the
  user name, and the store is left as it was.
\<close>

lemma register_missing_field:
  assumes "\<not> (truthy username \<and> truthy email \<and> truthy password \<and> truthy fullName)"
  shows "post_register w username email password fullName d
           = (Inr (Reply 400 (Failure ''All fields are required'')), d)"
  using assms by (auto simp: post_register_def)

text \<open>
  C6. A registration request that carries the four required fields and whose username
  is that of a stored user is answered 400 \<open>Username already taken\<close>, and the store
  (the users table with it) is left as it was: no row is created or modified.
\<close>

theorem register_taken_username:
  assumes "truthy username" and "truthy email" and "truthy password" and "truthy fullName"
    and "getUserByUsername (text_of username) d = Some u"
  shows "post_register w username email password fullName d
           = (Inr (Reply 400 (Failure ''Username already taken'')), d)"
  using assms by (simp add: post_register_def)

theorem register_taken_username_witness:
  "truthy (Val ''alice'') \<and> truthy (Val ''a2@example.com'') \<and> truthy (Val ''pw'')
   \<and> truthy (Val ''Alice Again'')
   \<and> getUserByUsername (text_of (Val ''alice'')) example_db = Some alice
   \<and> post_register example_world (Val ''alice'') (Val ''a2@example.com'') (Val ''pw'')
         (Val ''Alice Again'') example_db
       = (Inr (Reply 400 (Failure ''Username already taken'')), example_db)"
proof -
  have t: "truthy (Val ''alice'')" "truthy (Val ''a2@example.com'')" "truthy (Val ''pw'')"
    "truthy (Val ''Alice Again'')"
    by simp_all
  have h: "getUserByUsername (text_of (Val ''alice'')) example_db = Some alice"
    by code_simp
  from register_taken_username[OF t h, of example_world] t h
  show ?thesis by simp
qed


section \<open>Ownership checks of the portfolio routes\<close>

text \<open>
  C7. For every portfolio-scoped request that has passed the 400 checks of its route
  (numeric ids; for a new position also symbol, shares and purchase price): when no
  portfolio has the id the answer is 404, and when the portfolio exists and belongs to
  another user the answer is 403, so the 404 check comes first. In both cases the
  answer carries only the error text and the store is left as it was.
\<close>

theorem portfolio_guard:
  assumes "validated_portfolio_id r = Some i"
  shows "(getPortfolio i d = None \<longrightarrow>
            portfolio_route w userId r d = (Reply 404 (ErrorOnly ''Portfolio not found''), d))
       \<and> (\<forall>found. getPortfolio i d = Some found \<and> p_user_id found \<noteq> userId \<longrightarrow>
            portfolio_route w userId r d = (Reply 403 (ErrorOnly ''Access denied''), d))"
proof (cases r)
  case (GetPortfolio x)
  with assms show ?thesis by (simp add: get_portfolio_def)
next
  case (PutPortfolio x name description)
  with assms show ?thesis by (simp add: put_portfolio_def)
next
  case (DeletePortfolio x)
  with assms show ?thesis by (simp add: delete_portfolio_def)
next
  case (GetPositions x)
  with assms show ?thesis by (simp add: get_positions_def)
next
  case (PostPosition x reqBody)
  with assms show ?thesis by (auto simp: post_position_def split: if_splits)
next
  case (PutPosition x k reqBody)
  with assms show ?thesis by (auto simp: put_position_def split: if_splits)
next
  case (DeletePosition x k)
  with assms show ?thesis by (auto simp: delete_position_def split: if_splits)
qed


theorem portfolio_guard_witness:
  "validated_portfolio_id (GetPortfolio (Some 1)) = Some 1
   \<and> getPortfolio 1 example_db \<noteq> None
   \<and> map_option p_user_id (getPortfolio 1 example_db) = Some 1
   \<and> portfolio_route example_world 2 (GetPortfolio (Some 1)) example_db
       = (Reply 403 (ErrorOnly ''Access denied''), example_db)
   \<and> validated_portfolio_id (DeletePosition (Some 99) (Some 1)) = Some 99
   \<and> getPortfolio 99 example_db = None
   \<and> portfolio_route example_world 1 (DeletePosition (Some 99) (Some 1)) example_db
       = (Reply 404 (ErrorOnly ''Portfolio not found''), example_db)"
proof -
  have v1: "validated_portfolio_id (GetPortfolio (Some 1)) = Some 1" by simp
  have v2: "validated_portfolio_id (DeletePosition (Some 99) (Some 1)) = Some 99" by simp
  have g1: "getPortfolio 1 example_db = Some \<lparr> p_id = 1, p_user_id = 1, p_name = ''Growth'',
                                 p_description = None, p_created_at = 50 \<rparr>"
    by code_simp
  have g2: "getPortfolio 99 example_db = None" by code_simp
  from portfolio_guard[OF v1, of example_db example_world 2]
    portfolio_guard[OF v2, of example_db example_world 1] g1 g2
  show ?thesis by simp
qed

text \<open>
  The 400 checks of a route come before the portfolio is loaded: a new position without
  a symbol and a portfolio id that is not a number are answered 400 whether or not the
  portfolio exists.
\<close>

lemma validation_precedes_lookup:
  "getPortfolio 99 example_db = None
   \<and> portfolio_route example_world 1 (PostPosition (Some 99) no_symbol) example_db
       = (Reply 400 (ErrorOnly ''Missing required fields: symbol, shares, purchase_price''),
          example_db)
   \<and> portfolio_route example_world 1 (GetPortfolio None) example_db
       = (Reply 400 (ErrorOnly ''Invalid portfolio ID''), example_db)"
  by code_simp
section \<open>Symbols are stored and compared in upper case\<close>

lemma unique_failed_message [simp]:
  "str_includes (message (unique_failed cols)) ''UNIQUE constraint failed''"
  by (simp add: unique_failed_def)

lemma foreign_key_failed_message [simp]:
  "\<not> str_includes (message foreign_key_failed) ''UNIQUE constraint failed''"
  by (simp add: foreign_key_failed_def)

lemma isInWatchlist_iff:
  "isInWatchlist w userId symbol d \<longleftrightarrow>
     (\<exists>r \<in> set (rows (user_watchlist d)).
         w_user_id r = userId \<and> w_symbol r = toUpperCase w symbol)"
  by (simp add: isInWatchlist_def list_ex_iff)

lemma addToWatchlist_stores:
  assumes "\<not> isInWatchlist w userId symbol d" and "user_exists userId d"
  shows "addToWatchlist w userId symbol d =
          (Inr \<lparr> e_id = None, e_userId = userId, e_symbol = toUpperCase w symbol,
                 e_createdAt = clock w \<rparr>,
           d\<lparr>user_watchlist :=
               \<lparr> rows = rows (user_watchlist d) @
                          [\<lparr> w_id = next_id w_id (user_watchlist d), w_user_id = userId,
                             w_symbol = toUpperCase w symbol, w_created_at = clock w \<rparr>],
                 seq = next_id w_id (user_watchlist d) \<rparr>\<rparr>)"
  using assms
  by (simp add: addToWatchlist_def insert_user_watchlist_def isInWatchlist_def append_row_def)

lemma addToWatchlist_duplicate:
  assumes "isInWatchlist w userId symbol d"
  shows "addToWatchlist w userId symbol d =
          (Inl (Error (''Stock '' @ symbol @ '' is already in your watchlist'') None), d)"
  using assms by (simp add: addToWatchlist_def insert_user_watchlist_def isInWatchlist_def)

lemma addToWatchlist_no_user:
  assumes "\<not> isInWatchlist w userId symbol d" and "\<not> user_exists userId d"
  shows "addToWatchlist w userId symbol d = (Inl foreign_key_failed, d)"
  using assms by (simp add: addToWatchlist_def insert_user_watchlist_def isInWatchlist_def)

lemma addToWatchlist_returned:
  assumes "addToWatchlist w userId symbol d = (Inr item, d')"
  shows "\<not> isInWatchlist w userId symbol d" and "user_exists userId d"
  using assms
  by (auto simp: addToWatchlist_def insert_user_watchlist_def isInWatchlist_def
           split: if_splits)

lemma second_add_rejected:
  assumes "addToWatchlist w userId symbol d = (Inr item, d')"
    and "toUpperCase w symbol' = toUpperCase w symbol"
  shows "e_symbol item = toUpperCase w symbol"
    and "isInWatchlist w userId symbol' d'"
    and "addToWatchlist w userId symbol' d' =
           (Inl (Error (''Stock '' @ symbol' @ '' is already in your watchlist'') None), d')"
proof -
  note stored = addToWatchlist_stores[OF addToWatchlist_returned[OF assms(1)]]
  from stored assms(1) show "e_symbol item = toUpperCase w symbol"
    by auto
  from stored assms(1)
  have d': "rows (user_watchlist d') = rows (user_watchlist d) @
              [\<lparr> w_id = next_id w_id (user_watchlist d), w_user_id = userId,
                 w_symbol = toUpperCase w symbol, w_created_at = clock w \<rparr>]"
    by auto
  show in_list: "isInWatchlist w userId symbol' d'"
    using assms(2) by (simp add: d' isInWatchlist_iff)
  then show "addToWatchlist w userId symbol' d' =
           (Inl (Error (''Stock '' @ symbol' @ '' is already in your watchlist'') None), d')"
    by (rule addToWatchlist_duplicate)
qed

lemma addPosition_stores:
  assumes "getPortfolio (pd_portfolio_id positionData) d \<noteq> None"
  shows "rows (portfolio_positions (snd (addPosition w positionData d)))
          = rows (portfolio_positions d) @
              [\<lparr> ps_id = next_id ps_id (portfolio_positions d),
                 ps_portfolio_id = pd_portfolio_id positionData,
                 ps_symbol = toUpperCase w (pd_symbol positionData),
                 ps_shares = pd_shares positionData,
                 ps_purchase_price = pd_purchase_price positionData,
                 ps_purchase_date = Some (or_now (pd_purchase_date positionData) (clock w)),
                 ps_notes = or_null (pd_notes positionData) \<rparr>]"
  using assms by (simp add: addPosition_def Let_def append_row_def)

lemma addPosition_refuses:
  assumes "getPortfolio (pd_portfolio_id positionData) d = None"
  shows "addPosition w positionData d = (Inl foreign_key_failed, d)"
  using assms by (simp add: addPosition_def)

lemma addRestrictedStock_stores:
  assumes "\<not> list_ex (\<lambda>r. r_symbol r = toUpperCase w (rd_symbol restricted))
               (rows (restricted_stocks d))"
    and "fk_user (rd_added_by restricted) d"
  shows "fst (addRestrictedStock w restricted d)
          = Inr \<lparr> re_id = None, re_symbol = toUpperCase w (rd_symbol restricted),
                  re_reason = rd_reason restricted, re_added_by = rd_added_by restricted,
                  re_added_at = clock w \<rparr>"
    and "rows (restricted_stocks (snd (addRestrictedStock w restricted d)))
          = rows (restricted_stocks d) @
              [\<lparr> r_id = next_id r_id (restricted_stocks d),
                 r_symbol = toUpperCase w (rd_symbol restricted),
                 r_reason = or_null (rd_reason restricted), r_added_at = clock w,
                 r_added_by = rd_added_by restricted \<rparr>]"
  using assms by (simp_all add: addRestrictedStock_def append_row_def)

lemma addRestrictedStock_refuses:
  assumes "list_ex (\<lambda>r. r_symbol r = toUpperCase w (rd_symbol restricted))
             (rows (restricted_stocks d))
           \<or> \<not> fk_user (rd_added_by restricted) d"
  shows "\<exists>e. addRestrictedStock w restricted d = (Inl e, d)"
  using assms by (auto simp: addRestrictedStock_def)

lemma addFeaturedStock_stores:
  assumes "fk_user (fd_added_by featured) d"
  shows "rows (featured_stocks (snd (addFeaturedStock w featured d)))
          = rows (featured_stocks d) @
              [\<lparr> f_id = next_id f_id (featured_stocks d),
                 f_symbol = toUpperCase w (fd_symbol featured),
                 f_title = fd_title featured,
                 f_description = or_null (fd_description featured),
                 f_start_date = or_now (fd_start_date featured) (clock w),
                 f_end_date = date_or_null (fd_end_date featured),
                 f_added_by = fd_added_by featured \<rparr>]"
  using assms by (simp add: addFeaturedStock_def Let_def append_row_def)

lemma addFeaturedStock_refuses:
  assumes "\<not> fk_user (fd_added_by featured) d"
  shows "addFeaturedStock w featured d = (Inl foreign_key_failed, d)"
  using assms by (simp add: addFeaturedStock_def)

text \<open>
  C9. Each storage insert binds the upper-cased symbol. \<open>addToWatchlist\<close> appends
  the row \<open>(userId, toUpperCase symbol)\<close> and returns an item with that symbol whenever
  the user exists and has no row with the upper-cased symbol, and otherwise throws and
  writes nothing; \<open>addPosition\<close> appends a position with the upper-cased symbol whenever
  the portfolio exists; \<open>addRestrictedStock\<close> appends and returns the upper-cased
  symbol whenever no restricted row has it and \<open>added_by\<close> names a user (or is NULL);
  \<open>addFeaturedStock\<close> appends a row with the upper-cased symbol whenever
  \<open>added_by\<close> names a user (or is NULL); each of the three throws and writes nothing
  otherwise. \<open>isInWatchlist\<close> and \<open>removeFromWatchlist\<close> compare the stored symbol
  with the upper-cased input. Hence two inputs with the same upper-casing are the same to
  lookup and delete, and after one has been added for a user, the other is found in the
  watchlist and adding it is refused as a duplicate. Here \<open>toUpperCase w\<close> is the
  runtime's \<open>String.prototype.toUpperCase\<close>, whatever it does to a string.
\<close>

theorem symbols_upper_cased:
  "(\<not> isInWatchlist w userId symbol d \<and> user_exists userId d \<longrightarrow>
        fst (addToWatchlist w userId symbol d)
          = Inr \<lparr> e_id = None, e_userId = userId, e_symbol = toUpperCase w symbol,
                  e_createdAt = clock w \<rparr>
      \<and> rows (user_watchlist (snd (addToWatchlist w userId symbol d)))
          = rows (user_watchlist d) @
              [\<lparr> w_id = next_id w_id (user_watchlist d), w_user_id = userId,
                 w_symbol = toUpperCase w symbol, w_created_at = clock w \<rparr>])
   \<and> (isInWatchlist w userId symbol d \<longrightarrow>
        addToWatchlist w userId symbol d =
          (Inl (Error (''Stock '' @ symbol @ '' is already in your watchlist'') None), d))
   \<and> (\<not> isInWatchlist w userId symbol d \<and> \<not> user_exists userId d \<longrightarrow>
        addToWatchlist w userId symbol d = (Inl foreign_key_failed, d))
   \<and> (getPortfolio (pd_portfolio_id positionData) d \<noteq> None \<longrightarrow>
        rows (portfolio_positions (snd (addPosition w positionData d)))
          = rows (portfolio_positions d) @
              [\<lparr> ps_id = next_id ps_id (portfolio_positions d),
                 ps_portfolio_id = pd_portfolio_id positionData,
                 ps_symbol = toUpperCase w (pd_symbol positionData),
                 ps_shares = pd_shares positionData,
                 ps_purchase_price = pd_purchase_price positionData,
                 ps_purchase_date = Some (or_now (pd_purchase_date positionData) (clock w)),
                 ps_notes = or_null (pd_notes positionData) \<rparr>])
   \<and> (getPortfolio (pd_portfolio_id positionData) d = None \<longrightarrow>
        addPosition w positionData d = (Inl foreign_key_failed, d))
   \<and> (\<not> list_ex (\<lambda>r. r_symbol r = toUpperCase w (rd_symbol restricted))
            (rows (restricted_stocks d))
        \<and> fk_user (rd_added_by restricted) d \<longrightarrow>
        fst (addRestrictedStock w restricted d)
          = Inr \<lparr> re_id = None, re_symbol = toUpperCase w (rd_symbol restricted),
                  re_reason = rd_reason restricted, re_added_by = rd_added_by restricted,
                  re_added_at = clock w \<rparr>
      \<and> rows (restricted_stocks (snd (addRestrictedStock w restricted d)))
          = rows (restricted_stocks d) @
              [\<lparr> r_id = next_id r_id (restricted_stocks d),
                 r_symbol = toUpperCase w (rd_symbol restricted),
                 r_reason = or_null (rd_reason restricted), r_added_at = clock w,
                 r_added_by = rd_added_by restricted \<rparr>])
   \<and> (list_ex (\<lambda>r. r_symbol r = toUpperCase w (rd_symbol restricted))
          (rows (restricted_stocks d))
        \<or> \<not> fk_user (rd_added_by restricted) d \<longrightarrow>
        (\<exists>e. addRestrictedStock w restricted d = (Inl e, d)))
   \<and> (fk_user (fd_added_by featured) d \<longrightarrow>
        rows (featured_stocks (snd (addFeaturedStock w featured d)))
          = rows (featured_stocks d) @
              [\<lparr> f_id = next_id f_id (featured_stocks d),
                 f_symbol = toUpperCase w (fd_symbol featured),
                 f_title = fd_title featured,
                 f_description = or_null (fd_description featured),
                 f_start_date = or_now (fd_start_date featured) (clock w),
                 f_end_date = date_or_null (fd_end_date featured),
                 f_added_by = fd_added_by featured \<rparr>])
   \<and> (\<not> fk_user (fd_added_by featured) d \<longrightarrow>
        addFeaturedStock w featured d = (Inl foreign_key_failed, d))
   \<and> (isInWatchlist w userId symbol d \<longleftrightarrow>
        (\<exists>r \<in> set (rows (user_watchlist d)).
            w_user_id r = userId \<and> w_symbol r = toUpperCase w symbol))
   \<and> removeFromWatchlist w userId symbol d =
        (True, d\<lparr>user_watchlist := (user_watchlist d)
                  \<lparr>rows := filter (\<lambda>r. \<not> (w_user_id r = userId
                                          \<and> w_symbol r = toUpperCase w symbol))
                             (rows (user_watchlist d))\<rparr>\<rparr>)
   \<and> (\<forall>symbol'. toUpperCase w symbol' = toUpperCase w symbol \<longrightarrow>
          isInWatchlist w userId symbol' d = isInWatchlist w userId symbol d
        \<and> removeFromWatchlist w userId symbol' d = removeFromWatchlist w userId symbol d
        \<and> (\<forall>item d'. addToWatchlist w userId symbol d = (Inr item, d') \<longrightarrow>
              e_symbol item = toUpperCase w symbol
            \<and> isInWatchlist w userId symbol' d'
            \<and> addToWatchlist w userId symbol' d' =
                (Inl (Error (''Stock '' @ symbol' @ '' is already in your watchlist'') None), d')))"
proof (intro conjI allI impI; (elim conjE)?)
  assume fresh: "\<not> isInWatchlist w userId symbol d" and known: "user_exists userId d"
  show "fst (addToWatchlist w userId symbol d)
          = Inr \<lparr> e_id = None, e_userId = userId, e_symbol = toUpperCase w symbol,
                  e_createdAt = clock w \<rparr>"
    by (simp add: addToWatchlist_stores[OF fresh known])
  show "rows (user_watchlist (snd (addToWatchlist w userId symbol d)))
          = rows (user_watchlist d) @
              [\<lparr> w_id = next_id w_id (user_watchlist d), w_user_id = userId,
                 w_symbol = toUpperCase w symbol, w_created_at = clock w \<rparr>]"
    by (simp add: addToWatchlist_stores[OF fresh known])
next
  assume "isInWatchlist w userId symbol d"
  then show "addToWatchlist w userId symbol d =
          (Inl (Error (''Stock '' @ symbol @ '' is already in your watchlist'') None), d)"
    by (rule addToWatchlist_duplicate)
next
  assume "\<not> isInWatchlist w userId symbol d" and "\<not> user_exists userId d"
  then show "addToWatchlist w userId symbol d = (Inl foreign_key_failed, d)"
    by (rule addToWatchlist_no_user)
next
  assume "getPortfolio (pd_portfolio_id positionData) d \<noteq> None"
  then show "rows (portfolio_positions (snd (addPosition w positionData d)))
          = rows (portfolio_positions d) @
              [\<lparr> ps_id = next_id ps_id (portfolio_positions d),
                 ps_portfolio_id = pd_portfolio_id positionData,
                 ps_symbol = toUpperCase w (pd_symbol positionData),
                 ps_shares = pd_shares positionData,
                 ps_purchase_price = pd_purchase_price positionData,
                 ps_purchase_date = Some (or_now (pd_purchase_date positionData) (clock w)),
                 ps_notes = or_null (pd_notes positionData) \<rparr>]"
    by (rule addPosition_stores)
next
  assume "getPortfolio (pd_portfolio_id positionData) d = None"
  then show "addPosition w positionData d = (Inl foreign_key_failed, d)"
    by (rule addPosition_refuses)
next
  assume new: "\<not> list_ex (\<lambda>r. r_symbol r = toUpperCase w (rd_symbol restricted))
                  (rows (restricted_stocks d))"
    and fk: "fk_user (rd_added_by restricted) d"
  show "fst (addRestrictedStock w restricted d)
          = Inr \<lparr> re_id = None, re_symbol = toUpperCase w (rd_symbol restricted),
                  re_reason = rd_reason restricted, re_added_by = rd_added_by restricted,
                  re_added_at = clock w \<rparr>"
    by (rule addRestrictedStock_stores(1)[OF new fk])
  show "rows (restricted_stocks (snd (addRestrictedStock w restricted d)))
          = rows (restricted_stocks d) @
              [\<lparr> r_id = next_id r_id (restricted_stocks d),
                 r_symbol = toUpperCase w (rd_symbol restricted),
                 r_reason = or_null (rd_reason restricted), r_added_at = clock w,
                 r_added_by = rd_added_by restricted \<rparr>]"
    by (rule addRestrictedStock_stores(2)[OF new fk])
next
  assume "list_ex (\<lambda>r. r_symbol r = toUpperCase w (rd_symbol restricted))
             (rows (restricted_stocks d))
           \<or> \<not> fk_user (rd_added_by restricted) d"
  then show "\<exists>e. addRestrictedStock w restricted d = (Inl e, d)"
    by (rule addRestrictedStock_refuses)
next
  assume "fk_user (fd_added_by featured) d"
  then show "rows (featured_stocks (snd (addFeaturedStock w featured d)))
          = rows (featured_stocks d) @
              [\<lparr> f_id = next_id f_id (featured_stocks d),
                 f_symbol = toUpperCase w (fd_symbol featured),
                 f_title = fd_title featured,
                 f_description = or_null (fd_description featured),
                 f_start_date = or_now (fd_start_date featured) (clock w),
                 f_end_date = date_or_null (fd_end_date featured),
                 f_added_by = fd_added_by featured \<rparr>]"
    by (rule addFeaturedStock_stores)
next
  assume "\<not> fk_user (fd_added_by featured) d"
  then show "addFeaturedStock w featured d = (Inl foreign_key_failed, d)"
    by (rule addFeaturedStock_refuses)
next
  show "isInWatchlist w userId symbol d \<longleftrightarrow>
        (\<exists>r \<in> set (rows (user_watchlist d)).
            w_user_id r = userId \<and> w_symbol r = toUpperCase w symbol)"
    by (rule isInWatchlist_iff)
next
  show "removeFromWatchlist w userId symbol d =
        (True, d\<lparr>user_watchlist := (user_watchlist d)
                  \<lparr>rows := filter (\<lambda>r. \<not> (w_user_id r = userId
                                          \<and> w_symbol r = toUpperCase w symbol))
                             (rows (user_watchlist d))\<rparr>\<rparr>)"
    by (simp add: removeFromWatchlist_def)
next
  fix symbol' assume up: "toUpperCase w symbol' = toUpperCase w symbol"
  show "isInWatchlist w userId symbol' d = isInWatchlist w userId symbol d"
    using up by (simp add: isInWatchlist_def)
next
  fix symbol' assume up: "toUpperCase w symbol' = toUpperCase w symbol"
  show "removeFromWatchlist w userId symbol' d = removeFromWatchlist w userId symbol d"
    using up by (simp add: removeFromWatchlist_def)
next
  fix symbol' item d'
  assume up: "toUpperCase w symbol' = toUpperCase w symbol"
    and add: "addToWatchlist w userId symbol d = (Inr item, d')"
  show "e_symbol item = toUpperCase w symbol"
    by (rule second_add_rejected(1)[OF add up])
next
  fix symbol' item d'
  assume up: "toUpperCase w symbol' = toUpperCase w symbol"
    and add: "addToWatchlist w userId symbol d = (Inr item, d')"
  show "isInWatchlist w userId symbol' d'"
    by (rule second_add_rejected(2)[OF add up])
next
  fix symbol' item d'
  assume up: "toUpperCase w symbol' = toUpperCase w symbol"
    and add: "addToWatchlist w userId symbol d = (Inr item, d')"
  show "addToWatchlist w userId symbol' d' =
          (Inl (Error (''Stock '' @ symbol' @ '' is already in your watchlist'') None), d')"
    by (rule second_add_rejected(3)[OF add up])
qed

theorem symbols_upper_cased_witness:
  "toUpperCase example_world ''AmZn'' = toUpperCase example_world ''amzn''
   \<and> fst (addToWatchlist example_world 1 ''amzn'' example_db)
       = Inr \<lparr> e_id = None, e_userId = 1, e_symbol = ''AMZN'', e_createdAt = 1000 \<rparr>
   \<and> rows (user_watchlist (snd (addToWatchlist example_world 1 ''amzn'' example_db)))
       = [\<lparr> w_id = 1, w_user_id = 1, w_symbol = ''AMZN'', w_created_at = 1000 \<rparr>]
   \<and> isInWatchlist example_world 1 ''AmZn''
       (snd (addToWatchlist example_world 1 ''amzn'' example_db))
   \<and> fst (addToWatchlist example_world 1 ''AmZn''
            (snd (addToWatchlist example_world 1 ''amzn'' example_db)))
       = Inl (Error ''Stock AmZn is already in your watchlist'' None)
   \<and> map ps_symbol
       (rows (portfolio_positions (snd (addPosition example_world msft_position example_db))))
       = [''AMZN'', ''MSFT'']
   \<and> map r_symbol
       (rows (restricted_stocks (snd (addRestrictedStock example_world gme_restricted example_db))))
       = [''XYZ'', ''GME'']
   \<and> map f_symbol
       (rows (featured_stocks (snd (addFeaturedStock example_world nvda_featured example_db))))
       = [''NVDA'']"
proof -
  define d1 where "d1 = snd (addToWatchlist example_world 1 ''amzn'' example_db)"
  define item where "item = \<lparr> e_id = None, e_userId = 1, e_symbol = ''AMZN'',
                               e_createdAt = (1000 :: nat) \<rparr>"
  note all = symbols_upper_cased[where w = example_world and userId = 1
               and symbol = "''amzn''" and d = example_db and positionData = msft_position
               and restricted = gme_restricted and featured = nvda_featured]
  have up: "toUpperCase example_world ''AmZn'' = toUpperCase example_world ''amzn''"
    by code_simp
  have fresh: "\<not> isInWatchlist example_world 1 ''amzn'' example_db \<and> user_exists 1 example_db"
    by code_simp
  have owned: "getPortfolio (pd_portfolio_id msft_position) example_db \<noteq> None"
    by code_simp
  have unlisted: "\<not> list_ex (\<lambda>r. r_symbol r = toUpperCase example_world (rd_symbol gme_restricted))
                      (rows (restricted_stocks example_db))
                  \<and> fk_user (rd_added_by gme_restricted) example_db"
    by code_simp
  have admin: "fk_user (fd_added_by nvda_featured) example_db"
    by code_simp
  have vals:
    "toUpperCase example_world ''amzn'' = ''AMZN''"
    "clock example_world = 1000"
    "rows (user_watchlist example_db) = []"
    "next_id w_id (user_watchlist example_db) = 1"
    "toUpperCase example_world (pd_symbol msft_position) = ''MSFT''"
    "map ps_symbol (rows (portfolio_positions example_db)) = [''AMZN'']"
    "toUpperCase example_world (rd_symbol gme_restricted) = ''GME''"
    "map r_symbol (rows (restricted_stocks example_db)) = [''XYZ'']"
    "toUpperCase example_world (fd_symbol nvda_featured) = ''NVDA''"
    "rows (featured_stocks example_db) = []"
    by code_simp+
  from all fresh
  have a: "fst (addToWatchlist example_world 1 ''amzn'' example_db) = Inr item"
    and b: "rows (user_watchlist d1)
              = [\<lparr> w_id = 1, w_user_id = 1, w_symbol = ''AMZN'', w_created_at = 1000 \<rparr>]"
    by (simp_all add: vals d1_def item_def)
  have add: "addToWatchlist example_world 1 ''amzn'' example_db = (Inr item, d1)"
    using a by (simp add: d1_def prod_eq_iff)
  from all up add
  have c: "isInWatchlist example_world 1 ''AmZn'' d1
           \<and> addToWatchlist example_world 1 ''AmZn'' d1 =
               (Inl (Error (''Stock '' @ ''AmZn'' @ '' is already in your watchlist'') None), d1)"
    by blast
  from all owned
  have p: "map ps_symbol
             (rows (portfolio_positions (snd (addPosition example_world msft_position example_db))))
           = [''AMZN'', ''MSFT'']"
    by (simp add: vals)
  from all unlisted
  have r: "map r_symbol
             (rows (restricted_stocks
                (snd (addRestrictedStock example_world gme_restricted example_db))))
           = [''XYZ'', ''GME'']"
    by (simp add: vals)
  from all admin
  have f: "map f_symbol
             (rows (featured_stocks (snd (addFeaturedStock example_world nvda_featured example_db))))
           = [''NVDA'']"
    by (simp add: vals)
  from up a b c p r f show ?thesis
    by (simp add: d1_def item_def)
qed

section \<open>Schema initialization is all or nothing\<close>








end
